theory Spec2Isabelle
  imports Main "HOL-Library.AList" "HOL-Library.Multiset" "HOL-Library.Stream"
begin

section \<open>Errors and configuration\<close>

text \<open>
  Every exception the modelled code can raise is a value of \<open>error\<close>; a function that may
  raise returns \<open>error + 'a\<close> with \<open>Inl\<close> for the exception. \<open>HTTPException\<close> carries the
  status code and the detail string, as in \<^verbatim>\<open>fastapi.HTTPException\<close>.
\<close>

datatype error =
    JWTError
  | KeyError string
  | AttributeError
  | MultipleResultsFound
  | JSONDecodeError
  | UnicodeDecodeError
  | UnknownHashError
  | ValueError
  | PasswordValueError
  | HTTPException nat string

definition credentials_exception :: error where
  "credentials_exception = HTTPException 401 ''Could not validate credentials''"

text \<open>
  \<^verbatim>\<open>src/conf/config.py\<close>: the settings the token code reads. The algorithm is one of the
  HMAC algorithms of the JOSE library, for which any string is a usable secret, so that
  \<^verbatim>\<open>jwt.encode\<close> does not raise.
\<close>

datatype algorithm = HS256 | HS384 | HS512

record Settings =
  JWT_SECRET :: string
  JWT_ALGORITHM :: algorithm
  JWT_EXPIRATION_SECONDS :: int
  REFRESH_TOKEN_EXPIRATION_SECONDS :: int

section \<open>Token codec\<close>

text \<open>
  A claim set is a Python dict in insertion order: an association list, looked up with
  \<open>map_of\<close> and written with \<open>AList.update\<close> (an existing key keeps its place, a new key is
  appended, as \<^verbatim>\<open>dict.update\<close> does). Claim values are JSON strings and integers.

  The signed compact serialisation that \<^verbatim>\<open>jwt.encode\<close> returns is modelled symbolically:
  \<open>JWS alg key payload spelling\<close> stands for a string signed with \<open>key\<close> under \<open>alg\<close>, and
  \<open>Opaque s\<close> for any string that is not a well-formed signed token. The signature
  segment of a token has more than one spelling that the library's base64 decoder reads
  as the same signature (it skips what is outside its alphabet); \<open>spelling\<close> tells these
  strings apart, \<^verbatim>\<open>jwt.encode\<close> writes spelling \<open>0\<close>, and \<^verbatim>\<open>jwt.decode\<close> accepts each.
  Equality of tokens is equality of the strings they stand for. Time is UTC epoch
  seconds, the resolution at which the library writes and compares \<^verbatim>\<open>exp\<close> and \<^verbatim>\<open>iat\<close>.
\<close>

datatype jval = Str string | Num int

type_synonym claims = "(string \<times> jval) list"

datatype token = JWS algorithm string claims nat | Opaque string

definition jwt_encode :: "claims \<Rightarrow> string \<Rightarrow> algorithm \<Rightarrow> token" where
  "jwt_encode to_encode key alg = JWS alg key to_encode 0"

text \<open>
  The claim validation of \<^verbatim>\<open>jose.jwt.decode\<close> with its default options and no audience,
  issuer, subject or access token supplied, in the library's order: \<^verbatim>\<open>iat\<close> and \<^verbatim>\<open>nbf\<close>
  are integers, \<^verbatim>\<open>nbf\<close> is not in the future, \<^verbatim>\<open>exp\<close> is an integer and not
  \<^verbatim>\<open>exp < now\<close>, an \<^verbatim>\<open>aud\<close> claim is rejected, \<^verbatim>\<open>sub\<close> and \<^verbatim>\<open>jti\<close> are strings, an
  \<^verbatim>\<open>at_hash\<close> claim is rejected. Every failure is a subclass of \<^verbatim>\<open>JWTError\<close>.
\<close>

definition validate_iat :: "claims \<Rightarrow> bool" where
  "validate_iat cl = (case map_of cl ''iat'' of None \<Rightarrow> True | Some (Num n) \<Rightarrow> True | Some (Str s) \<Rightarrow> False)"

definition validate_nbf :: "claims \<Rightarrow> int \<Rightarrow> bool" where
  "validate_nbf cl now =
     (case map_of cl ''nbf'' of None \<Rightarrow> True | Some (Num nbf) \<Rightarrow> \<not> nbf > now | Some (Str s) \<Rightarrow> False)"

definition validate_exp :: "claims \<Rightarrow> int \<Rightarrow> bool" where
  "validate_exp cl now =
     (case map_of cl ''exp'' of None \<Rightarrow> True | Some (Num exp) \<Rightarrow> \<not> exp < now | Some (Str s) \<Rightarrow> False)"

definition validate_aud :: "claims \<Rightarrow> bool" where
  "validate_aud cl = (map_of cl ''aud'' = None)"

definition validate_sub :: "claims \<Rightarrow> bool" where
  "validate_sub cl = (case map_of cl ''sub'' of None \<Rightarrow> True | Some (Str s) \<Rightarrow> True | Some (Num n) \<Rightarrow> False)"

definition validate_jti :: "claims \<Rightarrow> bool" where
  "validate_jti cl = (case map_of cl ''jti'' of None \<Rightarrow> True | Some (Str s) \<Rightarrow> True | Some (Num n) \<Rightarrow> False)"

definition validate_at_hash :: "claims \<Rightarrow> bool" where
  "validate_at_hash cl = (map_of cl ''at_hash'' = None)"

definition validate_claims :: "claims \<Rightarrow> int \<Rightarrow> bool" where
  "validate_claims cl now =
     (validate_iat cl \<and> validate_nbf cl now \<and> validate_exp cl now \<and> validate_aud cl
      \<and> validate_sub cl \<and> validate_jti cl \<and> validate_at_hash cl)"

text \<open>
  \<^verbatim>\<open>jwt.decode(token, key, algorithms=[...])\<close> at clock reading \<open>now\<close>: a string that is
  not a signed token, a token whose algorithm is not allowed, a signature made with
  another key and a failed claim validation all raise \<^verbatim>\<open>JWTError\<close>.
\<close>

fun jwt_decode :: "token \<Rightarrow> string \<Rightarrow> algorithm list \<Rightarrow> int \<Rightarrow> error + claims" where
  "jwt_decode (Opaque s) key algorithms now = Inl JWTError"
| "jwt_decode (JWS alg k payload spelling) key algorithms now =
     (if alg \<notin> set algorithms then Inl JWTError
      else if k \<noteq> key then Inl JWTError
      else if \<not> validate_claims payload now then Inl JWTError
      else Inr payload)"

text \<open>
  \<^verbatim>\<open>create_email_token\<close> (services/auth.py) reads the clock twice: \<open>now1\<close> for the expiry,
  \<open>now2\<close> for \<^verbatim>\<open>iat\<close>. It writes \<^verbatim>\<open>iat\<close> and \<^verbatim>\<open>exp\<close> and nothing else.
\<close>

definition create_email_token :: "Settings \<Rightarrow> int \<Rightarrow> int \<Rightarrow> claims \<Rightarrow> token" where
  "create_email_token settings now1 now2 data =
     (let to_encode = data;
          expire = now1 + 7 * 86400;
          to_encode = AList.update ''exp'' (Num expire) (AList.update ''iat'' (Num now2) to_encode)
      in jwt_encode to_encode (JWT_SECRET settings) (JWT_ALGORITHM settings))"

text \<open>
  \<^verbatim>\<open>create_access_token\<close> and \<^verbatim>\<open>create_refresh_token\<close>: \<^verbatim>\<open>if expires_delta:\<close> is false
  for \<^verbatim>\<open>None\<close> and for \<open>0\<close>, and then the configured lifetime is used.
\<close>

definition create_access_token :: "Settings \<Rightarrow> int \<Rightarrow> claims \<Rightarrow> int option \<Rightarrow> token" where
  "create_access_token settings now data expires_delta =
     (let to_encode = data;
          expire = (case expires_delta of
                      None \<Rightarrow> now + JWT_EXPIRATION_SECONDS settings
                    | Some d \<Rightarrow> if d \<noteq> 0 then now + d
                               else now + JWT_EXPIRATION_SECONDS settings);
          to_encode = AList.update ''token_type'' (Str ''access'')
                        (AList.update ''iat'' (Num now)
                          (AList.update ''exp'' (Num expire) to_encode))
      in jwt_encode to_encode (JWT_SECRET settings) (JWT_ALGORITHM settings))"

definition create_refresh_token :: "Settings \<Rightarrow> int \<Rightarrow> claims \<Rightarrow> int option \<Rightarrow> token" where
  "create_refresh_token settings now data expires_delta =
     (let to_encode = data;
          expire = (case expires_delta of
                      None \<Rightarrow> now + REFRESH_TOKEN_EXPIRATION_SECONDS settings
                    | Some d \<Rightarrow> if d \<noteq> 0 then now + d
                               else now + REFRESH_TOKEN_EXPIRATION_SECONDS settings);
          to_encode = AList.update ''token_type'' (Str ''refresh'')
                        (AList.update ''iat'' (Num now)
                          (AList.update ''exp'' (Num expire) to_encode))
      in jwt_encode to_encode (JWT_SECRET settings) (JWT_ALGORITHM settings))"

text \<open>
  The claim set a signed token carries (empty for a string that is no token), and the
  subject in it.
\<close>

fun payload_of :: "token \<Rightarrow> claims" where
  "payload_of (JWS alg k payload spelling) = payload"
| "payload_of (Opaque s) = []"

definition subject_of :: "token \<Rightarrow> jval option" where
  "subject_of tok = map_of (payload_of tok) ''sub''"

text \<open>
  \<^verbatim>\<open>get_email_from_token\<close>: decode, then \<^verbatim>\<open>payload["sub"]\<close>; a decode failure becomes
  HTTP 422, a missing \<^verbatim>\<open>sub\<close> key is a \<^verbatim>\<open>KeyError\<close> that the handler does not catch.
\<close>

definition get_email_from_token :: "Settings \<Rightarrow> int \<Rightarrow> token \<Rightarrow> error + jval" where
  "get_email_from_token settings now tok =
     (case jwt_decode tok (JWT_SECRET settings) [JWT_ALGORITHM settings] now of
        Inl e \<Rightarrow> Inl (HTTPException 422 ''Invalid token for email verification'')
      | Inr payload \<Rightarrow>
          (case map_of payload ''sub'' of
             None \<Rightarrow> Inl (KeyError ''sub'')
           | Some addr \<Rightarrow> Inr addr))"

section \<open>User store\<close>

text \<open>
  \<^verbatim>\<open>database/models.py\<close>: the columns of \<^verbatim>\<open>User\<close> the authentication code reads or
  writes (the primary key is \<open>uid\<close>). The stored password hash is symbolic as tokens are:
  \<open>Bcrypt salt plain\<close> stands for the bcrypt string computed from \<open>plain\<close> under \<open>salt\<close>,
  \<open>Malformed_bcrypt s\<close> for a string that starts with a bcrypt identifier and does not
  parse as a bcrypt hash, and \<open>Unidentified s\<close> for a string without a bcrypt
  identifier.
\<close>

datatype UserRole = USER | ADMIN

datatype pwhash = Bcrypt string string | Malformed_bcrypt string | Unidentified string

record User =
  uid :: int
  email :: string
  username :: string
  hashed_password :: pwhash
  avatar :: "string option"
  confirmed :: bool
  role :: UserRole
  refresh_token :: "token option"

text \<open>
  \<^verbatim>\<open>scalar_one_or_none()\<close> of a query result: no row is \<^verbatim>\<open>None\<close>, one row is the row,
  more rows raise.
\<close>

fun scalar_one_or_none :: "'a list \<Rightarrow> error + 'a option" where
  "scalar_one_or_none [] = Inr None"
| "scalar_one_or_none [x] = Inr (Some x)"
| "scalar_one_or_none (x # y # rows) = Inl MultipleResultsFound"

text \<open>\<^verbatim>\<open>repository/users.py\<close>; the table is the list of its rows.\<close>

definition get_user_by_email :: "User list \<Rightarrow> string \<Rightarrow> error + User option" where
  "get_user_by_email db addr = scalar_one_or_none (filter (\<lambda>u. email u = addr) db)"

definition get_user_by_username :: "User list \<Rightarrow> string \<Rightarrow> error + User option" where
  "get_user_by_username db name = scalar_one_or_none (filter (\<lambda>u. username u = name) db)"

text \<open>
  The two updates fetch the row by email and assign to an attribute of the result, which
  raises \<^verbatim>\<open>AttributeError\<close> when the result is \<^verbatim>\<open>None\<close>. The fetched row is the only row
  with that email, so committing it rewrites exactly the rows with that email.
\<close>

definition update_refresh_token :: "User list \<Rightarrow> string \<Rightarrow> token \<Rightarrow> error + User list" where
  "update_refresh_token db addr tok =
     (case get_user_by_email db addr of
        Inl e \<Rightarrow> Inl e
      | Inr None \<Rightarrow> Inl AttributeError
      | Inr (Some user) \<Rightarrow>
          Inr (map (\<lambda>u. if email u = addr then u\<lparr>refresh_token := Some tok\<rparr> else u) db))"

definition update_hashed_password :: "User list \<Rightarrow> string \<Rightarrow> pwhash \<Rightarrow> error + User list" where
  "update_hashed_password db addr h =
     (case get_user_by_email db addr of
        Inl e \<Rightarrow> Inl e
      | Inr None \<Rightarrow> Inl AttributeError
      | Inr (Some user) \<Rightarrow>
          Inr (map (\<lambda>u. if email u = addr then u\<lparr>hashed_password := h\<rparr> else u) db))"

section \<open>Credential hasher\<close>

text \<open>
  \<^verbatim>\<open>Hash\<close> delegates to a passlib \<^verbatim>\<open>CryptContext(schemes=["bcrypt"])\<close> and catches
  nothing. The context's \<^verbatim>\<open>verify\<close> first identifies the scheme of the stored string and
  raises \<^verbatim>\<open>UnknownHashError\<close> when no configured scheme recognises it; the bcrypt
  handler then parses the string and raises a \<^verbatim>\<open>ValueError\<close> (or a subclass of it) when
  it cannot. On a bcrypt hash a password that holds a NUL byte raises
  \<^verbatim>\<open>PasswordValueError\<close>; any other password is compared, and bcrypt reads only the
  first 72 bytes of a password. \<^verbatim>\<open>hash\<close> refuses a NUL byte in the same way and draws a
  fresh salt, here an argument.
\<close>

fun pwd_context_verify :: "string \<Rightarrow> pwhash \<Rightarrow> error + bool" where
  "pwd_context_verify plain (Unidentified s) = Inl UnknownHashError"
| "pwd_context_verify plain (Malformed_bcrypt s) = Inl ValueError"
| "pwd_context_verify plain (Bcrypt salt p) =
     (if CHR 0x00 \<in> set plain then Inl PasswordValueError
      else Inr (take 72 plain = take 72 p))"

definition pwd_context_hash :: "string \<Rightarrow> string \<Rightarrow> error + pwhash" where
  "pwd_context_hash salt plain =
     (if CHR 0x00 \<in> set plain then Inl PasswordValueError else Inr (Bcrypt salt plain))"

definition verify_password :: "string \<Rightarrow> pwhash \<Rightarrow> error + bool" where
  "verify_password plain_password hashed = pwd_context_verify plain_password hashed"

definition get_password_hash :: "string \<Rightarrow> string \<Rightarrow> error + pwhash" where
  "get_password_hash salt password = pwd_context_hash salt password"

section \<open>Session cache\<close>

text \<open>
  The Redis client \<^verbatim>\<open>r\<close>: a key holds a value and, once \<^verbatim>\<open>expire\<close> was called on it, the
  time at which it disappears. \<^verbatim>\<open>set\<close> without options stores the value and clears that
  time. The stored value is what \<^verbatim>\<open>jsonpickle.encode\<close> returned for a user,
  \<open>Pickled user\<close>, or some other byte string: \<open>Other_json s\<close> is valid JSON that is not
  the pickle of a user, \<open>Not_json s\<close> is text that is not JSON, \<open>Not_utf8 s\<close> is not
  text. \<^verbatim>\<open>jsonpickle.decode\<close> returns the user for the first, some other Python object
  for the second, and raises for the last two; what it returns is a \<open>pyobject\<close>.
\<close>

datatype pickle = Pickled User | Other_json string | Not_json string | Not_utf8 string

datatype pyobject = User_object User | Other_object string

type_synonym redis = "string \<rightharpoonup> pickle \<times> int option"

definition redis_get :: "redis \<Rightarrow> int \<Rightarrow> string \<Rightarrow> pickle option" where
  "redis_get r now k =
     (case r k of
        None \<Rightarrow> None
      | Some (v, None) \<Rightarrow> Some v
      | Some (v, Some deadline) \<Rightarrow> if now < deadline then Some v else None)"

definition redis_set :: "redis \<Rightarrow> string \<Rightarrow> pickle \<Rightarrow> redis" where
  "redis_set r k v = r(k \<mapsto> (v, None))"

definition redis_expire :: "redis \<Rightarrow> int \<Rightarrow> string \<Rightarrow> int \<Rightarrow> redis" where
  "redis_expire r now k seconds =
     (case redis_get r now k of
        None \<Rightarrow> r
      | Some v \<Rightarrow> r(k \<mapsto> (v, Some (now + seconds))))"

definition serialize_user :: "User \<Rightarrow> pickle" where
  "serialize_user user = Pickled user"

fun deserialize_user :: "pickle \<Rightarrow> error + pyobject" where
  "deserialize_user (Pickled user) = Inr (User_object user)"
| "deserialize_user (Other_json s) = Inr (Other_object s)"
| "deserialize_user (Not_json s) = Inl JSONDecodeError"
| "deserialize_user (Not_utf8 s) = Inl UnicodeDecodeError"

section \<open>Temporary passwords\<close>

text \<open>
  Python's \<^verbatim>\<open>random\<close> module is a stream of raw draws; \<^verbatim>\<open>_randbelow(n)\<close> takes one draw
  and yields an index below \<open>n\<close>, so every outcome of the real generator is the outcome
  of some stream. \<^verbatim>\<open>random.choice\<close> and \<^verbatim>\<open>random.choices\<close> index the population with
  such an index (every population here is a non-empty literal), and \<^verbatim>\<open>random.shuffle\<close>
  walks \<open>i\<close> from the last position down to 1, swapping position \<open>i\<close> with a position
  drawn below \<open>i + 1\<close>.
\<close>

type_synonym rng = "nat stream"

definition randbelow :: "nat \<Rightarrow> rng \<Rightarrow> nat \<times> rng" where
  "randbelow n g = (shd g mod n, stl g)"

definition choice :: "'a list \<Rightarrow> rng \<Rightarrow> 'a \<times> rng" where
  "choice population g = (case randbelow (length population) g of (i, g') \<Rightarrow> (population ! i, g'))"

fun choices :: "'a list \<Rightarrow> nat \<Rightarrow> rng \<Rightarrow> 'a list \<times> rng" where
  "choices population 0 g = ([], g)"
| "choices population (Suc k) g =
     (case choice population g of (c, g1) \<Rightarrow>
        (case choices population k g1 of (cs, g2) \<Rightarrow> (c # cs, g2)))"

fun shuffle_loop :: "nat \<Rightarrow> 'a list \<Rightarrow> rng \<Rightarrow> 'a list \<times> rng" where
  "shuffle_loop 0 x g = (x, g)"
| "shuffle_loop (Suc i) x g =
     (case randbelow (Suc i + 1) g of (j, g') \<Rightarrow>
        shuffle_loop i (x[Suc i := x ! j, j := x ! Suc i]) g')"

definition shuffle :: "'a list \<Rightarrow> rng \<Rightarrow> 'a list \<times> rng" where
  "shuffle x g = shuffle_loop (length x - 1) x g"

definition ascii_lowercase :: string where
  "ascii_lowercase = ''abcdefghijklmnopqrstuvwxyz''"

definition ascii_uppercase :: string where
  "ascii_uppercase = ''ABCDEFGHIJKLMNOPQRSTUVWXYZ''"

definition ascii_letters :: string where
  "ascii_letters = ascii_lowercase @ ascii_uppercase"

definition digits :: string where
  "digits = ''0123456789''"

definition symbols :: string where
  "symbols = ''@$!%*?&''"

text \<open>
  \<^verbatim>\<open>generate_temp_password\<close>; \<open>pytest\<close> says whether \<^verbatim>\<open>"pytest" in sys.modules\<close>.
\<close>

definition generate_temp_password :: "bool \<Rightarrow> rng \<Rightarrow> string \<times> rng" where
  "generate_temp_password pytest g =
     (if pytest then (''TestTest2!'', g)
      else
        (let len = 10 in
         case choice ascii_lowercase g of (lower, g1) \<Rightarrow>
         case choice ascii_uppercase g1 of (upper, g2) \<Rightarrow>
         case choice digits g2 of (digit, g3) \<Rightarrow>
         case choice symbols g3 of (symbol, g4) \<Rightarrow>
         (let remaining = len - 4 in
          case choices (ascii_letters @ digits @ symbols) remaining g4 of (other_chars, g5) \<Rightarrow>
            shuffle ([lower] @ [upper] @ [digit] @ [symbol] @ other_chars) g5)))"

section \<open>Identity resolver and endpoints\<close>

text \<open>
  The state the handlers work on: the users table, the Redis store, and the background
  tasks handed to the framework. \<open>calls\<close> records, in order, the calls that
  \<^verbatim>\<open>get_current_user\<close> makes to the cache and to the user store, so that they can be
  counted. A handler that raises leaves the state as it was when it raised.
\<close>

datatype task =
    Send_reset_password_email string string
  | Send_email string string string

datatype call =
    Redis_get string
  | Redis_set string pickle
  | Redis_expire string int
  | Get_user_by_username string

record world =
  users_table :: "User list"
  redis_db :: redis
  background_tasks :: "task list"
  calls :: "call list"

datatype response = Message string | TokenModel token token string

text \<open>
  \<^verbatim>\<open>verify_refresh_token\<close>: decoding failures become the credentials exception; a payload
  without \<^verbatim>\<open>sub\<close> is a \<^verbatim>\<open>KeyError\<close> outside \<^verbatim>\<open>except JWTError\<close>; a \<^verbatim>\<open>sub\<close> that is not
  a string never leaves \<^verbatim>\<open>jwt.decode\<close>. The row is read with \<^verbatim>\<open>user.refresh_token\<close>
  without a test for \<^verbatim>\<open>None\<close>.
\<close>

definition verify_refresh_token :: "Settings \<Rightarrow> int \<Rightarrow> token \<Rightarrow> User list \<Rightarrow> error + User option" where
  "verify_refresh_token settings now refresh db =
     (case jwt_decode refresh (JWT_SECRET settings) [JWT_ALGORITHM settings] now of
        Inl e \<Rightarrow> Inl credentials_exception
      | Inr payload \<Rightarrow>
          (case map_of payload ''sub'' of
             None \<Rightarrow> Inl (KeyError ''sub'')
           | Some (Num n) \<Rightarrow> Inl credentials_exception
           | Some (Str name) \<Rightarrow>
               if map_of payload ''token_type'' \<noteq> Some (Str ''refresh'')
               then Inl credentials_exception
               else
                 (case get_user_by_username db name of
                    Inl e \<Rightarrow> Inl e
                  | Inr None \<Rightarrow> Inl AttributeError
                  | Inr (Some user) \<Rightarrow>
                      if refresh_token user \<noteq> Some refresh then Inl credentials_exception
                      else Inr (Some user))))"

text \<open>
  \<^verbatim>\<open>get_current_user\<close>: the cache is read first; only when \<^verbatim>\<open>r.get\<close> returns \<^verbatim>\<open>None\<close> is
  the user store asked, and a found user is written back with \<^verbatim>\<open>r.set\<close> and
  \<^verbatim>\<open>r.expire(username, 3600)\<close>. A cached value goes to \<^verbatim>\<open>deserialize_user\<close>, whose
  exception is not caught and whose result is returned as it is, a user or not.
\<close>

definition get_current_user :: "Settings \<Rightarrow> int \<Rightarrow> token \<Rightarrow> world \<Rightarrow> (error + pyobject) \<times> world" where
  "get_current_user settings now tok w =
     (case jwt_decode tok (JWT_SECRET settings) [JWT_ALGORITHM settings] now of
        Inl e \<Rightarrow> (Inl credentials_exception, w)
      | Inr payload \<Rightarrow>
          (case map_of payload ''sub'' of
             None \<Rightarrow> (Inl (KeyError ''sub''), w)
           | Some (Num n) \<Rightarrow> (Inl credentials_exception, w)
           | Some (Str name) \<Rightarrow>
               (let w1 = w\<lparr>calls := calls w @ [Redis_get name]\<rparr> in
                case redis_get (redis_db w1) now name of
                  None \<Rightarrow>
                    (let w2 = w1\<lparr>calls := calls w1 @ [Get_user_by_username name]\<rparr> in
                     case get_user_by_username (users_table w2) name of
                       Inl e \<Rightarrow> (Inl e, w2)
                     | Inr None \<Rightarrow> (Inl credentials_exception, w2)
                     | Inr (Some user) \<Rightarrow>
                         (let w3 = w2\<lparr>redis_db := redis_set (redis_db w2) name (serialize_user user),
                                      calls := calls w2 @ [Redis_set name (serialize_user user)]\<rparr>;
                              w4 = w3\<lparr>redis_db := redis_expire (redis_db w3) now name 3600,
                                      calls := calls w3 @ [Redis_expire name 3600]\<rparr>
                          in (Inr (User_object user), w4)))
                | Some user_json \<Rightarrow>
                    (case deserialize_user user_json of
                       Inl e \<Rightarrow> (Inl e, w1)
                     | Inr obj \<Rightarrow> (Inr obj, w1)))))"

text \<open>
  \<^verbatim>\<open>api/auth.py\<close>. The rate limiter in front of \<^verbatim>\<open>forget_password\<close> is middleware and is
  not part of the handlers. \<^verbatim>\<open>if user:\<close> tests the row for \<^verbatim>\<open>None\<close>.
\<close>

definition forget_password :: "bool \<Rightarrow> rng \<Rightarrow> string \<Rightarrow> string \<Rightarrow> world \<Rightarrow> (error + response) \<times> world" where
  "forget_password pytest g salt addr w =
     (case get_user_by_email (users_table w) addr of
        Inl e \<Rightarrow> (Inl e, w)
      | Inr None \<Rightarrow>
          (Inr (Message ''If this user exists in our database, we have sent them an email with temporary password''), w)
      | Inr (Some user) \<Rightarrow>
          if \<not> confirmed user then (Inl (HTTPException 401 ''Email is not confirmed''), w)
          else
            (let generated_password = fst (generate_temp_password pytest g)
             in case get_password_hash salt generated_password of
                  Inl e \<Rightarrow> (Inl e, w)
                | Inr hashed \<Rightarrow>
                    (case update_hashed_password (users_table w) addr hashed of
                       Inl e \<Rightarrow> (Inl e, w)
                     | Inr db' \<Rightarrow>
                         (Inr (Message ''If this user exists in our database, we have sent them an email with temporary password''),
                          w\<lparr>users_table := db',
                            background_tasks := background_tasks w
                              @ [Send_reset_password_email addr generated_password]\<rparr>))))"

definition request_email :: "string \<Rightarrow> string \<Rightarrow> world \<Rightarrow> (error + response) \<times> world" where
  "request_email base_url addr w =
     (case get_user_by_email (users_table w) addr of
        Inl e \<Rightarrow> (Inl e, w)
      | Inr None \<Rightarrow>
          (Inr (Message ''If this user exists in our database, we have sent them a confirmation email''), w)
      | Inr (Some user) \<Rightarrow>
          if confirmed user then (Inl (HTTPException 400 ''Email is already confirmed''), w)
          else
            (Inr (Message ''If this user exists in our database, we have sent them a confirmation email''),
             w\<lparr>background_tasks := background_tasks w
                  @ [Send_email (email user) (username user) base_url]\<rparr>))"

text \<open>
  \<^verbatim>\<open>login_user\<close>: \<open>now1\<close> and \<open>now2\<close> are the clock readings of the two token
  constructors. The new refresh token replaces the stored one.
\<close>

definition login_user :: "Settings \<Rightarrow> int \<Rightarrow> int \<Rightarrow> string \<Rightarrow> string \<Rightarrow> world \<Rightarrow> (error + response) \<times> world" where
  "login_user settings now1 now2 form_username form_password w =
     (case get_user_by_username (users_table w) form_username of
        Inl e \<Rightarrow> (Inl e, w)
      | Inr None \<Rightarrow> (Inl (HTTPException 401 ''Invalid username or password''), w)
      | Inr (Some user) \<Rightarrow>
          (case verify_password form_password (hashed_password user) of
             Inl e \<Rightarrow> (Inl e, w)
           | Inr ok \<Rightarrow>
               if \<not> ok then (Inl (HTTPException 401 ''Invalid username or password''), w)
               else if \<not> confirmed user then (Inl (HTTPException 401 ''Email is not confirmed''), w)
               else
                 (let access_token = create_access_token settings now1 [(''sub'', Str (username user))] None;
                      refresh = create_refresh_token settings now2 [(''sub'', Str (username user))] None
                  in case update_refresh_token (users_table w) (email user) refresh of
                       Inl e \<Rightarrow> (Inl e, w)
                     | Inr db' \<Rightarrow>
                         (Inr (TokenModel access_token refresh ''bearer''), w\<lparr>users_table := db'\<rparr>))))"

text \<open>
  \<^verbatim>\<open>new_token\<close> (POST /refresh-token): \<open>now1\<close> is the clock reading of \<^verbatim>\<open>jwt.decode\<close>,
  \<open>now2\<close> that of \<^verbatim>\<open>create_access_token\<close>. Nothing is written.
\<close>

definition new_token :: "Settings \<Rightarrow> int \<Rightarrow> int \<Rightarrow> token \<Rightarrow> world \<Rightarrow> (error + response) \<times> world" where
  "new_token settings now1 now2 request_refresh_token w =
     (case verify_refresh_token settings now1 request_refresh_token (users_table w) of
        Inl e \<Rightarrow> (Inl e, w)
      | Inr None \<Rightarrow> (Inl (HTTPException 401 ''Invalid or expired refresh token''), w)
      | Inr (Some user) \<Rightarrow>
          (let new_access_token = create_access_token settings now2 [(''sub'', Str (username user))] None
           in (Inr (TokenModel new_access_token request_refresh_token ''bearer''), w)))"

text \<open>
  The number of user-store lookups and of cache writes among recorded calls.
\<close>

fun is_store_lookup :: "call \<Rightarrow> bool" where
  "is_store_lookup (Get_user_by_username name) = True"
| "is_store_lookup c = False"

fun is_cache_put :: "call \<Rightarrow> bool" where
  "is_cache_put (Redis_set name v) = True"
| "is_cache_put c = False"

definition store_lookups :: "call list \<Rightarrow> nat" where
  "store_lookups cs = length (filter is_store_lookup cs)"

definition cache_puts :: "call list \<Rightarrow> nat" where
  "cache_puts cs = length (filter is_cache_put cs)"

section \<open>Example data\<close>

text \<open>
  The configuration defaults of \<^verbatim>\<open>conf/config.py\<close> and the user of the integration
  tests, confirmed and with no refresh token stored yet.
\<close>

definition settings0 :: Settings where
  "settings0 = \<lparr>JWT_SECRET = ''secret'', JWT_ALGORITHM = HS256,
                JWT_EXPIRATION_SECONDS = 3600,
                REFRESH_TOKEN_EXPIRATION_SECONDS = 604800\<rparr>"

definition agent007 :: User where
  "agent007 = \<lparr>uid = 1, email = ''agent007@gmail.com'', username = ''agent007'',
               hashed_password = Bcrypt ''salt'' ''Testtest1!'', avatar = None,
               confirmed = True, role = ADMIN, refresh_token = None\<rparr>"

definition world0 :: world where
  "world0 = \<lparr>users_table = [agent007], redis_db = Map.empty, background_tasks = [], calls = []\<rparr>"

text \<open>
  The tokens a login of that user issues at clock reading \<open>t\<close>, and the state after
  that login.
\<close>

definition access_at :: "int \<Rightarrow> token" where
  "access_at t = create_access_token settings0 t [(''sub'', Str ''agent007'')] None"

definition refresh_at :: "int \<Rightarrow> token" where
  "refresh_at t = create_refresh_token settings0 t [(''sub'', Str ''agent007'')] None"

definition logged_in :: "int \<Rightarrow> world" where
  "logged_in t = world0\<lparr>users_table := [agent007\<lparr>refresh_token := Some (refresh_at t)\<rparr>]\<rparr>"

text \<open>
  The state after \<^verbatim>\<open>get_current_user\<close> filled the cache for that user at clock reading
  1000, a state whose cache entry for the user is the text \<^verbatim>\<open>{\<close>, which is not JSON, and
  a state in which the user has not confirmed the email address.
\<close>

definition world_cached :: world where
  "world_cached =
     world0\<lparr>redis_db := [''agent007'' \<mapsto> (Pickled agent007, Some 4600)],
            calls := [Redis_get ''agent007'', Get_user_by_username ''agent007'',
                      Redis_set ''agent007'' (Pickled agent007),
                      Redis_expire ''agent007'' 3600]\<rparr>"

definition world_malformed :: world where
  "world_malformed = world0\<lparr>redis_db := [''agent007'' \<mapsto> (Not_json ''{'', None)]\<rparr>"

definition world_unconfirmed :: world where
  "world_unconfirmed = world0\<lparr>users_table := [agent007\<lparr>confirmed := False\<rparr>]\<rparr>"

section \<open>Facts about the token codec\<close>

lemma payload_of_create_access_token:
  "map_of (payload_of (create_access_token settings now data expires_delta)) =
     (map_of data)(''exp'' \<mapsto> Num (case expires_delta of
                      None \<Rightarrow> now + JWT_EXPIRATION_SECONDS settings
                    | Some d \<Rightarrow> if d \<noteq> 0 then now + d
                               else now + JWT_EXPIRATION_SECONDS settings),
                   ''iat'' \<mapsto> Num now, ''token_type'' \<mapsto> Str ''access'')"
  by (simp add: create_access_token_def jwt_encode_def AList.update_conv')

lemma validate_claims_access:
  assumes "map_of cl ''exp'' = Some (Num e)" "map_of cl ''iat'' = Some (Num i)"
    "map_of cl ''nbf'' = None" "map_of cl ''aud'' = None" "map_of cl ''sub'' = Some (Str s)"
    "map_of cl ''jti'' = None" "map_of cl ''at_hash'' = None"
  shows "validate_claims cl t = (t \<le> e)"
  using assms
  by (auto simp add: validate_claims_def validate_iat_def validate_nbf_def validate_exp_def
      validate_aud_def validate_sub_def validate_jti_def validate_at_hash_def)

lemma validate_claims_eval:
  "validate_claims cl t =
     ((case map_of cl ''iat'' of None \<Rightarrow> True | Some (Num n) \<Rightarrow> True | Some (Str s) \<Rightarrow> False)
      \<and> (case map_of cl ''nbf'' of None \<Rightarrow> True | Some (Num nbf) \<Rightarrow> \<not> nbf > t | Some (Str s) \<Rightarrow> False)
      \<and> (case map_of cl ''exp'' of None \<Rightarrow> True | Some (Num exp) \<Rightarrow> \<not> exp < t | Some (Str s) \<Rightarrow> False)
      \<and> map_of cl ''aud'' = None
      \<and> (case map_of cl ''sub'' of None \<Rightarrow> True | Some (Str s) \<Rightarrow> True | Some (Num n) \<Rightarrow> False)
      \<and> (case map_of cl ''jti'' of None \<Rightarrow> True | Some (Str s) \<Rightarrow> True | Some (Num n) \<Rightarrow> False)
      \<and> map_of cl ''at_hash'' = None)"
  by (simp add: validate_claims_def validate_iat_def validate_nbf_def validate_exp_def
      validate_aud_def validate_sub_def validate_jti_def validate_at_hash_def)

lemma jwt_decode_Inr:
  "jwt_decode tok key algs now = Inr payload \<Longrightarrow> payload = payload_of tok"
  by (cases tok) (auto split: if_splits)

lemma payload_of_create_refresh_token:
  "map_of (payload_of (create_refresh_token settings now data expires_delta)) =
     (map_of data)(''exp'' \<mapsto> Num (case expires_delta of
                      None \<Rightarrow> now + REFRESH_TOKEN_EXPIRATION_SECONDS settings
                    | Some d \<Rightarrow> if d \<noteq> 0 then now + d
                               else now + REFRESH_TOKEN_EXPIRATION_SECONDS settings),
                   ''iat'' \<mapsto> Num now, ''token_type'' \<mapsto> Str ''refresh'')"
  by (simp add: create_refresh_token_def jwt_encode_def AList.update_conv')

lemma jwt_decode_sub:
  "jwt_decode tok key algs now = Inr payload \<Longrightarrow> map_of payload ''sub'' \<noteq> Some (Num n)"
  by (cases tok) (auto simp add: validate_claims_def validate_sub_def split: if_splits)

lemma payload_of_access_at:
  "payload_of (access_at t) =
     [(''sub'', Str ''agent007''), (''exp'', Num (t + 3600)), (''iat'', Num t),
      (''token_type'', Str ''access'')]"
  by (simp add: access_at_def create_access_token_def jwt_encode_def settings0_def)

lemma jwt_decode_access_at:
  "now \<le> t + 3600 \<Longrightarrow>
   jwt_decode (access_at t) (JWT_SECRET settings0) [JWT_ALGORITHM settings0] now
     = Inr (payload_of (access_at t))"
  by (simp add: payload_of_access_at validate_claims_eval)
     (simp add: access_at_def create_access_token_def jwt_encode_def settings0_def
        validate_claims_eval)

section \<open>Facts about the user store\<close>

lemma scalar_one_or_none_Some: "scalar_one_or_none rows = Inr (Some x) \<longleftrightarrow> rows = [x]"
  by (cases rows rule: scalar_one_or_none.cases) auto

lemma scalar_one_or_none_None: "scalar_one_or_none rows = Inr None \<longleftrightarrow> rows = []"
  by (cases rows rule: scalar_one_or_none.cases) auto

lemma scalar_one_or_none_map:
  "scalar_one_or_none (map f rows) = map_sum id (map_option f) (scalar_one_or_none rows)"
  by (cases rows rule: scalar_one_or_none.cases) auto

lemma get_user_by_username_Some:
  assumes "get_user_by_username db name = Inr (Some u)"
  shows "username u = name"
proof -
  have "filter (\<lambda>u. username u = name) db = [u]"
    using assms by (simp add: get_user_by_username_def scalar_one_or_none_Some)
  then have "u \<in> set (filter (\<lambda>u. username u = name) db)" by simp
  then show ?thesis by simp
qed

lemma get_user_by_email_Some:
  assumes "get_user_by_email db addr = Inr (Some u)"
  shows "email u = addr"
proof -
  have "filter (\<lambda>u. email u = addr) db = [u]"
    using assms by (simp add: get_user_by_email_def scalar_one_or_none_Some)
  then have "u \<in> set (filter (\<lambda>u. email u = addr) db)" by simp
  then show ?thesis by simp
qed

lemma get_user_by_username_map:
  assumes "\<And>u. username (f u) = username u"
  shows "get_user_by_username (map f db) name
           = map_sum id (map_option f) (get_user_by_username db name)"
proof -
  have "filter (\<lambda>u. username u = name) (map f db)
          = map f (filter (\<lambda>u. username u = name) db)"
    by (simp add: filter_map o_def assms)
  then show ?thesis by (simp add: get_user_by_username_def scalar_one_or_none_map)
qed

lemma update_refresh_token_lookup:
  assumes upd: "update_refresh_token db addr tok = Inr db'"
    and usr: "get_user_by_username db name = Inr (Some user)"
    and addr: "email user = addr"
  shows "get_user_by_username db' name = Inr (Some (user\<lparr>refresh_token := Some tok\<rparr>))"
proof -
  let ?f = "\<lambda>u. if email u = addr then u\<lparr>refresh_token := Some tok\<rparr> else u"
  have db': "db' = map ?f db"
    using upd by (auto simp add: update_refresh_token_def split: sum.splits option.splits)
  have "get_user_by_username (map ?f db) name
          = map_sum id (map_option ?f) (get_user_by_username db name)"
    by (rule get_user_by_username_map) simp
  then show ?thesis by (simp add: db' usr addr)
qed

lemma login_user_success:
  assumes "login_user settings now1 now2 name pw w = (Inr resp, w')"
  shows "\<exists>user. get_user_by_username (users_table w) name = Inr (Some user)
           \<and> resp = TokenModel (create_access_token settings now1 [(''sub'', Str name)] None)
                               (create_refresh_token settings now2 [(''sub'', Str name)] None)
                               ''bearer''
           \<and> get_user_by_username (users_table w') name
               = Inr (Some (user\<lparr>refresh_token :=
                       Some (create_refresh_token settings now2 [(''sub'', Str name)] None)\<rparr>))"
proof -
  from assms obtain user where
    usr: "get_user_by_username (users_table w) name = Inr (Some user)"
    by (auto simp add: login_user_def split: sum.splits option.splits)
  have n: "username user = name" using usr by (rule get_user_by_username_Some)
  let ?refresh = "create_refresh_token settings now2 [(''sub'', Str name)] None"
  from assms usr n obtain db' where
    upd: "update_refresh_token (users_table w) (email user) ?refresh = Inr db'"
    and w': "w' = w\<lparr>users_table := db'\<rparr>"
    and resp: "resp = TokenModel (create_access_token settings now1 [(''sub'', Str name)] None)
                  ?refresh ''bearer''"
    by (auto simp add: login_user_def Let_def split: sum.splits option.splits if_splits)
  have "get_user_by_username db' name = Inr (Some (user\<lparr>refresh_token := Some ?refresh\<rparr>))"
    using upd usr by (rule update_refresh_token_lookup) simp
  then show ?thesis using usr resp w' by simp
qed

section \<open>Refresh-token validation\<close>

lemma create_refresh_token_same_iff:
  "create_refresh_token settings t1 data expires_delta
     = create_refresh_token settings t2 data expires_delta \<longleftrightarrow> t1 = t2"
proof
  assume "create_refresh_token settings t1 data expires_delta
            = create_refresh_token settings t2 data expires_delta"
  then have "map_of (payload_of (create_refresh_token settings t1 data expires_delta)) ''iat''
               = map_of (payload_of (create_refresh_token settings t2 data expires_delta)) ''iat''"
    by simp
  then show "t1 = t2" by (simp add: payload_of_create_refresh_token)
next
  assume "t1 = t2"
  then show "create_refresh_token settings t1 data expires_delta
               = create_refresh_token settings t2 data expires_delta"
    by simp
qed

lemma verify_refresh_token_mismatch:
  assumes "jwt_decode tok (JWT_SECRET settings) [JWT_ALGORITHM settings] now = Inr payload"
    and "map_of payload ''sub'' = Some (Str name)"
    and "map_of payload ''token_type'' = Some (Str ''refresh'')"
    and "get_user_by_username db name = Inr (Some user)"
    and "refresh_token user \<noteq> Some tok"
  shows "verify_refresh_token settings now tok db = Inl credentials_exception"
  using assms by (simp add: verify_refresh_token_def)

lemma verify_refresh_token_after_login:
  assumes l1: "login_user settings a1 r1 name pw1 w0 = (Inr (TokenModel access1 refresh1 tt1), w1)"
    and l2: "login_user settings a2 r2 name pw2 w1 = (Inr (TokenModel access2 refresh2 tt2), w2)"
    and ne: "refresh1 \<noteq> refresh2"
  shows "verify_refresh_token settings now refresh1 (users_table w2) = Inl credentials_exception"
proof -
  from login_user_success[OF l1]
  have r1: "refresh1 = create_refresh_token settings r1 [(''sub'', Str name)] None" by auto
  from login_user_success[OF l2] obtain user where
    r2: "refresh2 = create_refresh_token settings r2 [(''sub'', Str name)] None"
    and usr: "get_user_by_username (users_table w2) name
               = Inr (Some (user\<lparr>refresh_token := Some refresh2\<rparr>))"
    by auto
  show ?thesis
  proof (cases "jwt_decode refresh1 (JWT_SECRET settings) [JWT_ALGORITHM settings] now")
    case (Inl e)
    then show ?thesis by (simp add: verify_refresh_token_def)
  next
    case (Inr payload)
    have p: "payload = payload_of refresh1" using Inr by (rule jwt_decode_Inr)
    have sub: "map_of payload ''sub'' = Some (Str name)"
      by (simp add: p r1 payload_of_create_refresh_token)
    have tt: "map_of payload ''token_type'' = Some (Str ''refresh'')"
      by (simp add: p r1 payload_of_create_refresh_token)
    have stored: "refresh_token (user\<lparr>refresh_token := Some refresh2\<rparr>) \<noteq> Some refresh1"
      using ne by simp
    show ?thesis by (rule verify_refresh_token_mismatch[OF Inr sub tt usr stored])
  qed
qed

lemma login_agent007:
  "login_user settings0 t t ''agent007'' ''Testtest1!'' world0
     = (Inr (TokenModel (access_at t) (refresh_at t) ''bearer''), logged_in t)"
  by (simp add: login_user_def world0_def agent007_def get_user_by_username_def
        verify_password_def update_refresh_token_def get_user_by_email_def
        access_at_def refresh_at_def logged_in_def Let_def)

lemma login_agent007_again:
  "login_user settings0 t t ''agent007'' ''Testtest1!'' (logged_in t0)
     = (Inr (TokenModel (access_at t) (refresh_at t) ''bearer''), logged_in t)"
  by (simp add: login_user_def world0_def agent007_def get_user_by_username_def
        verify_password_def update_refresh_token_def get_user_by_email_def
        access_at_def refresh_at_def logged_in_def Let_def)

lemma payload_of_refresh_at:
  "payload_of (refresh_at t) =
     [(''sub'', Str ''agent007''), (''exp'', Num (t + 604800)), (''iat'', Num t),
      (''token_type'', Str ''refresh'')]"
  by (simp add: refresh_at_def create_refresh_token_def jwt_encode_def settings0_def)

lemma jwt_decode_refresh_at:
  "now \<le> t + 604800 \<Longrightarrow>
   jwt_decode (refresh_at t) (JWT_SECRET settings0) [JWT_ALGORITHM settings0] now
     = Inr (payload_of (refresh_at t))"
  by (simp add: payload_of_refresh_at validate_claims_eval)
     (simp add: refresh_at_def create_refresh_token_def jwt_encode_def settings0_def
        validate_claims_eval)

lemma users_table_logged_in:
  "get_user_by_username (users_table (logged_in t)) ''agent007''
     = Inr (Some (agent007\<lparr>refresh_token := Some (refresh_at t)\<rparr>))"
  by (simp add: logged_in_def world0_def get_user_by_username_def agent007_def)

lemma jwt_decode_create_refresh_token:
  "t \<le> now + REFRESH_TOKEN_EXPIRATION_SECONDS settings \<Longrightarrow>
   jwt_decode (create_refresh_token settings now [(''sub'', Str name)] None)
       (JWT_SECRET settings) [JWT_ALGORITHM settings] t
     = Inr (payload_of (create_refresh_token settings now [(''sub'', Str name)] None))"
  by (simp add: create_refresh_token_def jwt_encode_def validate_claims_eval)

lemma verify_refresh_token_same_second:
  assumes l1: "login_user settings a1 r1 name pw1 w0 = (Inr (TokenModel access1 refresh1 tt1), w1)"
    and l2: "login_user settings a2 r1 name pw2 w1 = (Inr (TokenModel access2 refresh2 tt2), w2)"
    and live: "now \<le> r1 + REFRESH_TOKEN_EXPIRATION_SECONDS settings"
  shows "refresh1 = refresh2"
    and "verify_refresh_token settings now refresh1 (users_table w2)
           = get_user_by_username (users_table w2) name"
    and "verify_refresh_token settings now refresh1 (users_table w2) \<noteq> Inl credentials_exception"
proof -
  from login_user_success[OF l1]
  have r1: "refresh1 = create_refresh_token settings r1 [(''sub'', Str name)] None" by auto
  from login_user_success[OF l2] obtain user where
    r2: "refresh2 = create_refresh_token settings r1 [(''sub'', Str name)] None"
    and usr: "get_user_by_username (users_table w2) name
               = Inr (Some (user\<lparr>refresh_token := Some refresh2\<rparr>))"
    by auto
  show same: "refresh1 = refresh2" by (simp add: r1 r2)
  have d: "jwt_decode refresh1 (JWT_SECRET settings) [JWT_ALGORITHM settings] now
             = Inr (payload_of refresh1)"
    unfolding r1 using live by (rule jwt_decode_create_refresh_token)
  have sub: "map_of (payload_of refresh1) ''sub'' = Some (Str name)"
    by (simp add: r1 payload_of_create_refresh_token)
  have kind: "map_of (payload_of refresh1) ''token_type'' = Some (Str ''refresh'')"
    by (simp add: r1 payload_of_create_refresh_token)
  have usr1: "get_user_by_username (users_table w2) name
               = Inr (Some (user\<lparr>refresh_token := Some refresh1\<rparr>))"
    using usr same by simp
  show eq: "verify_refresh_token settings now refresh1 (users_table w2)
           = get_user_by_username (users_table w2) name"
    by (simp add: verify_refresh_token_def d sub kind usr1)
  show "verify_refresh_token settings now refresh1 (users_table w2) \<noteq> Inl credentials_exception"
    by (simp add: eq usr1)
qed

text \<open>
  C1. A refresh token that decodes, has kind refresh and names an existing user, but is
  not the refresh token stored for that user, is rejected with the credentials exception
  (HTTP 401). After two successful logins of the same user whose refresh tokens were
  issued at different clock seconds, the two tokens differ and the refresh token of the
  first login is rejected with the credentials exception. When both were issued within
  the same clock second they are the same token, which is the stored one and, while
  unexpired, is accepted.
\<close>

theorem superseded_refresh_token_rejected:
  "(jwt_decode tok (JWT_SECRET settings) [JWT_ALGORITHM settings] now = Inr payload
      \<and> map_of payload ''sub'' = Some (Str name)
      \<and> map_of payload ''token_type'' = Some (Str ''refresh'')
      \<and> get_user_by_username db name = Inr (Some user)
      \<and> refresh_token user \<noteq> Some tok
    \<longrightarrow> verify_refresh_token settings now tok db = Inl credentials_exception)
   \<and> (login_user settings a1 r1 login_name pw1 w0 = (Inr (TokenModel access1 refresh1 tt1), w1)
      \<and> login_user settings a2 r2 login_name pw2 w1 = (Inr (TokenModel access2 refresh2 tt2), w2)
      \<and> r1 \<noteq> r2
    \<longrightarrow> refresh1 \<noteq> refresh2
        \<and> verify_refresh_token settings now' refresh1 (users_table w2) = Inl credentials_exception)
   \<and> (login_user settings a1 r1 login_name pw1 w0 = (Inr (TokenModel access1 refresh1 tt1), w1)
      \<and> login_user settings a2 r2 login_name pw2 w1 = (Inr (TokenModel access2 refresh2 tt2), w2)
      \<and> r1 = r2 \<and> now' \<le> r1 + REFRESH_TOKEN_EXPIRATION_SECONDS settings
    \<longrightarrow> refresh1 = refresh2
        \<and> verify_refresh_token settings now' refresh1 (users_table w2)
            = get_user_by_username (users_table w2) login_name
        \<and> verify_refresh_token settings now' refresh1 (users_table w2) \<noteq> Inl credentials_exception)"
proof (intro conjI impI)
  assume "jwt_decode tok (JWT_SECRET settings) [JWT_ALGORITHM settings] now = Inr payload
      \<and> map_of payload ''sub'' = Some (Str name)
      \<and> map_of payload ''token_type'' = Some (Str ''refresh'')
      \<and> get_user_by_username db name = Inr (Some user)
      \<and> refresh_token user \<noteq> Some tok"
  then show "verify_refresh_token settings now tok db = Inl credentials_exception"
    by (elim conjE) (rule verify_refresh_token_mismatch)
next
  assume a: "login_user settings a1 r1 login_name pw1 w0 = (Inr (TokenModel access1 refresh1 tt1), w1)
      \<and> login_user settings a2 r2 login_name pw2 w1 = (Inr (TokenModel access2 refresh2 tt2), w2)
      \<and> r1 \<noteq> r2"
  then have l1: "login_user settings a1 r1 login_name pw1 w0 = (Inr (TokenModel access1 refresh1 tt1), w1)"
    and l2: "login_user settings a2 r2 login_name pw2 w1 = (Inr (TokenModel access2 refresh2 tt2), w2)"
    and t: "r1 \<noteq> r2"
    by blast+
  from login_user_success[OF l1]
  have t1: "refresh1 = create_refresh_token settings r1 [(''sub'', Str login_name)] None" by auto
  from login_user_success[OF l2]
  have t2: "refresh2 = create_refresh_token settings r2 [(''sub'', Str login_name)] None" by auto
  show ne: "refresh1 \<noteq> refresh2"
    using t by (simp add: t1 t2 create_refresh_token_same_iff)
  show "verify_refresh_token settings now' refresh1 (users_table w2) = Inl credentials_exception"
    using l1 l2 ne by (rule verify_refresh_token_after_login)
next
  assume a: "login_user settings a1 r1 login_name pw1 w0 = (Inr (TokenModel access1 refresh1 tt1), w1)
      \<and> login_user settings a2 r2 login_name pw2 w1 = (Inr (TokenModel access2 refresh2 tt2), w2)
      \<and> r1 = r2 \<and> now' \<le> r1 + REFRESH_TOKEN_EXPIRATION_SECONDS settings"
  from a have same_second: "r1 = r2" by blast
  from a have l1: "login_user settings a1 r1 login_name pw1 w0 = (Inr (TokenModel access1 refresh1 tt1), w1)"
    by blast
  from a have "login_user settings a2 r2 login_name pw2 w1 = (Inr (TokenModel access2 refresh2 tt2), w2)"
    by blast
  then have l2: "login_user settings a2 r1 login_name pw2 w1 = (Inr (TokenModel access2 refresh2 tt2), w2)"
    unfolding same_second .
  from a have live: "now' \<le> r1 + REFRESH_TOKEN_EXPIRATION_SECONDS settings" by blast
  show "refresh1 = refresh2"
    using l1 l2 live by (rule verify_refresh_token_same_second(1))
  show "verify_refresh_token settings now' refresh1 (users_table w2)
            = get_user_by_username (users_table w2) login_name"
    using l1 l2 live by (rule verify_refresh_token_same_second(2))
  show "verify_refresh_token settings now' refresh1 (users_table w2) \<noteq> Inl credentials_exception"
    using l1 l2 live by (rule verify_refresh_token_same_second(3))
qed

theorem superseded_refresh_token_rejected_witness:
  "jwt_decode (refresh_at 1000) (JWT_SECRET settings0) [JWT_ALGORITHM settings0] 3000
      = Inr (payload_of (refresh_at 1000))
   \<and> map_of (payload_of (refresh_at 1000)) ''sub'' = Some (Str ''agent007'')
   \<and> map_of (payload_of (refresh_at 1000)) ''token_type'' = Some (Str ''refresh'')
   \<and> get_user_by_username (users_table (logged_in 2000)) ''agent007''
      = Inr (Some (agent007\<lparr>refresh_token := Some (refresh_at 2000)\<rparr>))
   \<and> refresh_token (agent007\<lparr>refresh_token := Some (refresh_at 2000)\<rparr>) \<noteq> Some (refresh_at 1000)
   \<and> login_user settings0 1000 1000 ''agent007'' ''Testtest1!'' world0
      = (Inr (TokenModel (access_at 1000) (refresh_at 1000) ''bearer''), logged_in 1000)
   \<and> login_user settings0 2000 2000 ''agent007'' ''Testtest1!'' (logged_in 1000)
      = (Inr (TokenModel (access_at 2000) (refresh_at 2000) ''bearer''), logged_in 2000)
   \<and> (1000::int) \<noteq> 2000
   \<and> refresh_at 1000 \<noteq> refresh_at 2000
   \<and> verify_refresh_token settings0 3000 (refresh_at 1000) (users_table (logged_in 2000))
      = Inl credentials_exception
   \<and> login_user settings0 1000 1000 ''agent007'' ''Testtest1!'' (logged_in 1000)
      = (Inr (TokenModel (access_at 1000) (refresh_at 1000) ''bearer''), logged_in 1000)
   \<and> (3000::int) \<le> 1000 + REFRESH_TOKEN_EXPIRATION_SECONDS settings0
   \<and> verify_refresh_token settings0 3000 (refresh_at 1000) (users_table (logged_in 1000))
      = get_user_by_username (users_table (logged_in 1000)) ''agent007''
   \<and> verify_refresh_token settings0 3000 (refresh_at 1000) (users_table (logged_in 1000))
      \<noteq> Inl credentials_exception"
proof -
  have d: "jwt_decode (refresh_at 1000) (JWT_SECRET settings0) [JWT_ALGORITHM settings0] 3000
      = Inr (payload_of (refresh_at 1000))"
    by (rule jwt_decode_refresh_at) simp
  have sub: "map_of (payload_of (refresh_at 1000)) ''sub'' = Some (Str ''agent007'')"
    by (simp add: payload_of_refresh_at)
  have kind: "map_of (payload_of (refresh_at 1000)) ''token_type'' = Some (Str ''refresh'')"
    by (simp add: payload_of_refresh_at)
  have usr: "get_user_by_username (users_table (logged_in 2000)) ''agent007''
      = Inr (Some (agent007\<lparr>refresh_token := Some (refresh_at 2000)\<rparr>))"
    by (rule users_table_logged_in)
  have ne: "refresh_at 1000 \<noteq> refresh_at 2000"
    by (simp add: refresh_at_def create_refresh_token_same_iff)
  have stored: "refresh_token (agent007\<lparr>refresh_token := Some (refresh_at 2000)\<rparr>)
      \<noteq> Some (refresh_at 1000)"
    using ne by simp
  have l1: "login_user settings0 1000 1000 ''agent007'' ''Testtest1!'' world0
      = (Inr (TokenModel (access_at 1000) (refresh_at 1000) ''bearer''), logged_in 1000)"
    by (rule login_agent007)
  have l2: "login_user settings0 2000 2000 ''agent007'' ''Testtest1!'' (logged_in 1000)
      = (Inr (TokenModel (access_at 2000) (refresh_at 2000) ''bearer''), logged_in 2000)"
    by (rule login_agent007_again)
  have l2': "login_user settings0 1000 1000 ''agent007'' ''Testtest1!'' (logged_in 1000)
      = (Inr (TokenModel (access_at 1000) (refresh_at 1000) ''bearer''), logged_in 1000)"
    by (rule login_agent007_again)
  have t: "(1000::int) \<noteq> 2000" by simp
  have live: "(3000::int) \<le> 1000 + REFRESH_TOKEN_EXPIRATION_SECONDS settings0"
    by (simp add: settings0_def)
  note distinct_seconds = superseded_refresh_token_rejected
    [where settings = settings0 and tok = "refresh_at 1000" and now = 3000
       and payload = "payload_of (refresh_at 1000)" and name = "''agent007''"
       and db = "users_table (logged_in 2000)"
       and user = "agent007\<lparr>refresh_token := Some (refresh_at 2000)\<rparr>"
       and ?a1.0 = 1000 and ?r1.0 = 1000 and login_name = "''agent007''"
       and ?pw1.0 = "''Testtest1!''" and ?w0.0 = world0
       and ?access1.0 = "access_at 1000" and ?refresh1.0 = "refresh_at 1000"
       and ?tt1.0 = "''bearer''" and ?w1.0 = "logged_in 1000"
       and ?a2.0 = 2000 and ?r2.0 = 2000 and ?pw2.0 = "''Testtest1!''"
       and ?access2.0 = "access_at 2000" and ?refresh2.0 = "refresh_at 2000"
       and ?tt2.0 = "''bearer''" and ?w2.0 = "logged_in 2000" and now' = 3000]
  note same_second = superseded_refresh_token_rejected
    [where settings = settings0
       and ?a1.0 = 1000 and ?r1.0 = 1000 and login_name = "''agent007''"
       and ?pw1.0 = "''Testtest1!''" and ?w0.0 = world0
       and ?access1.0 = "access_at 1000" and ?refresh1.0 = "refresh_at 1000"
       and ?tt1.0 = "''bearer''" and ?w1.0 = "logged_in 1000"
       and ?a2.0 = 1000 and ?r2.0 = 1000 and ?pw2.0 = "''Testtest1!''"
       and ?access2.0 = "access_at 1000" and ?refresh2.0 = "refresh_at 1000"
       and ?tt2.0 = "''bearer''" and ?w2.0 = "logged_in 1000" and now' = 3000,
     THEN conjunct2, THEN conjunct2]
  have general: "verify_refresh_token settings0 3000 (refresh_at 1000) (users_table (logged_in 2000))
      = Inl credentials_exception"
    using distinct_seconds d sub kind usr stored by blast
  have scenario: "refresh_at 1000 \<noteq> refresh_at 2000
      \<and> verify_refresh_token settings0 3000 (refresh_at 1000) (users_table (logged_in 2000))
          = Inl credentials_exception"
    using distinct_seconds l1 l2 t by blast
  have same: "verify_refresh_token settings0 3000 (refresh_at 1000) (users_table (logged_in 1000))
      = get_user_by_username (users_table (logged_in 1000)) ''agent007''
    \<and> verify_refresh_token settings0 3000 (refresh_at 1000) (users_table (logged_in 1000))
      \<noteq> Inl credentials_exception"
    using same_second l1 l2' live by blast
  show ?thesis using d sub kind usr stored l1 l2 l2' t live general scenario same by blast
qed

text \<open>
  Two logins in the same clock second: the second login stores the token the first one
  issued, and presenting the first login's token succeeds.
\<close>

theorem same_second_login_counterexample:
  "login_user settings0 1000 1000 ''agent007'' ''Testtest1!'' world0
      = (Inr (TokenModel (access_at 1000) (refresh_at 1000) ''bearer''), logged_in 1000)
   \<and> login_user settings0 1000 1000 ''agent007'' ''Testtest1!'' (logged_in 1000)
      = (Inr (TokenModel (access_at 1000) (refresh_at 1000) ''bearer''), logged_in 1000)
   \<and> verify_refresh_token settings0 1000 (refresh_at 1000) (users_table (logged_in 1000))
      = Inr (Some (agent007\<lparr>refresh_token := Some (refresh_at 1000)\<rparr>))"
proof -
  have d: "jwt_decode (refresh_at 1000) (JWT_SECRET settings0) [JWT_ALGORITHM settings0] 1000
      = Inr (payload_of (refresh_at 1000))"
    by (rule jwt_decode_refresh_at) simp
  have v: "verify_refresh_token settings0 1000 (refresh_at 1000) (users_table (logged_in 1000))
      = Inr (Some (agent007\<lparr>refresh_token := Some (refresh_at 1000)\<rparr>))"
    by (simp add: verify_refresh_token_def d payload_of_refresh_at users_table_logged_in)
  show ?thesis using login_agent007[of 1000] login_agent007_again[of 1000 1000] v by blast
qed

text \<open>
  C3. A refresh token that decodes with kind refresh and names a user absent from the
  user store is to be rejected with the credentials exception, as \<^verbatim>\<open>get_current_user\<close>
  rejects a missing user. \<^verbatim>\<open>verify_refresh_token\<close> reads \<^verbatim>\<open>user.refresh_token\<close> of the
  missing row instead: for the token of a user \<^verbatim>\<open>ghost\<close> that the table does not hold,
  validation, and with it the refresh endpoint, ends in an \<^verbatim>\<open>AttributeError\<close>.
\<close>

theorem verify_refresh_token_missing_user:
  "verify_refresh_token settings0 1000
      (create_refresh_token settings0 1000 [(''sub'', Str ''ghost'')] None) (users_table world0)
     = Inl AttributeError
   \<and> fst (new_token settings0 1000 1000
      (create_refresh_token settings0 1000 [(''sub'', Str ''ghost'')] None) world0)
     = Inl AttributeError"
  by (simp add: verify_refresh_token_def new_token_def create_refresh_token_def jwt_encode_def settings0_def
      validate_claims_eval world0_def get_user_by_username_def agent007_def)

lemma create_access_token_subject_only:
  "create_access_token settings now [(''sub'', Str name)] None
     = JWS (JWT_ALGORITHM settings) (JWT_SECRET settings)
         [(''sub'', Str name), (''exp'', Num (now + JWT_EXPIRATION_SECONDS settings)),
          (''iat'', Num now), (''token_type'', Str ''access'')] 0"
  by (simp add: create_access_token_def jwt_encode_def)

lemma jwt_decode_create_access_token:
  "t \<le> now + JWT_EXPIRATION_SECONDS settings \<Longrightarrow>
   jwt_decode (create_access_token settings now [(''sub'', Str name)] None)
       (JWT_SECRET settings) [JWT_ALGORITHM settings] t
     = Inr [(''sub'', Str name), (''exp'', Num (now + JWT_EXPIRATION_SECONDS settings)),
            (''iat'', Num now), (''token_type'', Str ''access'')]"
  by (simp add: create_access_token_subject_only validate_claims_eval)

text \<open>
  C9. A successful refresh returns a newly issued access token together with the
  presented refresh token itself, and leaves the state as it was: the refresh token
  stored for the user is still the presented one. The access token is signed with the
  configured secret and algorithm and carries the subject of the presented refresh
  token, the issue time, an expiry one configured access-token lifetime later and the
  kind \<^verbatim>\<open>access\<close>; it decodes at every clock reading up to that expiry.
\<close>

theorem new_token_reuses_refresh_token:
  assumes "new_token settings now1 now2 tok w = (Inr resp, w')"
  shows "\<exists>name user.
           subject_of tok = Some (Str name)
           \<and> resp = TokenModel (create_access_token settings now2 [(''sub'', Str name)] None)
                              tok ''bearer''
           \<and> create_access_token settings now2 [(''sub'', Str name)] None
               = JWS (JWT_ALGORITHM settings) (JWT_SECRET settings)
                   [(''sub'', Str name),
                    (''exp'', Num (now2 + JWT_EXPIRATION_SECONDS settings)),
                    (''iat'', Num now2), (''token_type'', Str ''access'')] 0
           \<and> (t \<le> now2 + JWT_EXPIRATION_SECONDS settings \<longrightarrow>
                jwt_decode (create_access_token settings now2 [(''sub'', Str name)] None)
                    (JWT_SECRET settings) [JWT_ALGORITHM settings] t
                  = Inr [(''sub'', Str name),
                         (''exp'', Num (now2 + JWT_EXPIRATION_SECONDS settings)),
                         (''iat'', Num now2), (''token_type'', Str ''access'')])
           \<and> w' = w
           \<and> get_user_by_username (users_table w') name = Inr (Some user)
           \<and> refresh_token user = Some tok"
proof -
  from assms obtain user where
    v: "verify_refresh_token settings now1 tok (users_table w) = Inr (Some user)"
    and resp: "resp = TokenModel (create_access_token settings now2 [(''sub'', Str (username user))] None)
                 tok ''bearer''"
    and w': "w' = w"
    by (auto simp add: new_token_def Let_def split: sum.splits option.splits)
  from v obtain payload name where
    d: "jwt_decode tok (JWT_SECRET settings) [JWT_ALGORITHM settings] now1 = Inr payload"
    and sub: "map_of payload ''sub'' = Some (Str name)"
    and usr: "get_user_by_username (users_table w) name = Inr (Some user)"
    and stored: "refresh_token user = Some tok"
    by (auto simp add: verify_refresh_token_def split: sum.splits option.splits jval.splits if_splits)
  have p: "payload = payload_of tok" using d by (rule jwt_decode_Inr)
  have n: "username user = name" using usr by (rule get_user_by_username_Some)
  have s1: "subject_of tok = Some (Str name)" using sub p by (simp add: subject_of_def)
  have r: "resp = TokenModel (create_access_token settings now2 [(''sub'', Str name)] None)
             tok ''bearer''"
    using resp n by simp
  have usr': "get_user_by_username (users_table w') name = Inr (Some user)"
    using usr w' by simp
  note issued = create_access_token_subject_only[of settings now2 name]
  have usable: "t \<le> now2 + JWT_EXPIRATION_SECONDS settings \<longrightarrow>
                jwt_decode (create_access_token settings now2 [(''sub'', Str name)] None)
                    (JWT_SECRET settings) [JWT_ALGORITHM settings] t
                  = Inr [(''sub'', Str name),
                         (''exp'', Num (now2 + JWT_EXPIRATION_SECONDS settings)),
                         (''iat'', Num now2), (''token_type'', Str ''access'')]"
    using jwt_decode_create_access_token[of t now2 settings name] by blast
  show ?thesis
    using s1 r issued usable w' usr' stored by blast
qed

lemma new_token_agent007:
  "new_token settings0 1500 1600 (refresh_at 1000) (logged_in 1000)
     = (Inr (TokenModel (access_at 1600) (refresh_at 1000) ''bearer''), logged_in 1000)"
proof -
  have d: "jwt_decode (refresh_at 1000) (JWT_SECRET settings0) [JWT_ALGORITHM settings0] 1500
      = Inr (payload_of (refresh_at 1000))"
    by (rule jwt_decode_refresh_at) simp
  have v: "verify_refresh_token settings0 1500 (refresh_at 1000) (users_table (logged_in 1000))
      = Inr (Some (agent007\<lparr>refresh_token := Some (refresh_at 1000)\<rparr>))"
    by (simp add: verify_refresh_token_def d payload_of_refresh_at users_table_logged_in)
  show ?thesis
    by (simp add: new_token_def v access_at_def agent007_def)
qed

theorem new_token_reuses_refresh_token_witness:
  "new_token settings0 1500 1600 (refresh_at 1000) (logged_in 1000)
     = (Inr (TokenModel (access_at 1600) (refresh_at 1000) ''bearer''), logged_in 1000)
   \<and> (\<exists>name user.
           subject_of (refresh_at 1000) = Some (Str name)
           \<and> TokenModel (access_at 1600) (refresh_at 1000) ''bearer''
               = TokenModel (create_access_token settings0 1600 [(''sub'', Str name)] None)
                              (refresh_at 1000) ''bearer''
           \<and> create_access_token settings0 1600 [(''sub'', Str name)] None
               = JWS (JWT_ALGORITHM settings0) (JWT_SECRET settings0)
                   [(''sub'', Str name),
                    (''exp'', Num (1600 + JWT_EXPIRATION_SECONDS settings0)),
                    (''iat'', Num 1600), (''token_type'', Str ''access'')] 0
           \<and> (1700 \<le> 1600 + JWT_EXPIRATION_SECONDS settings0 \<longrightarrow>
                jwt_decode (create_access_token settings0 1600 [(''sub'', Str name)] None)
                    (JWT_SECRET settings0) [JWT_ALGORITHM settings0] 1700
                  = Inr [(''sub'', Str name),
                         (''exp'', Num (1600 + JWT_EXPIRATION_SECONDS settings0)),
                         (''iat'', Num 1600), (''token_type'', Str ''access'')])
           \<and> logged_in 1000 = logged_in 1000
           \<and> get_user_by_username (users_table (logged_in 1000)) name = Inr (Some user)
           \<and> refresh_token user = Some (refresh_at 1000))
   \<and> (1700::int) \<le> 1600 + JWT_EXPIRATION_SECONDS settings0
   \<and> jwt_decode (access_at 1600) (JWT_SECRET settings0) [JWT_ALGORITHM settings0] 1700
       = Inr [(''sub'', Str ''agent007''), (''exp'', Num 5200), (''iat'', Num 1600),
              (''token_type'', Str ''access'')]"
proof -
  have live: "(1700::int) \<le> 1600 + JWT_EXPIRATION_SECONDS settings0"
    by (simp add: settings0_def)
  have usable: "jwt_decode (access_at 1600) (JWT_SECRET settings0) [JWT_ALGORITHM settings0] 1700
       = Inr [(''sub'', Str ''agent007''), (''exp'', Num 5200), (''iat'', Num 1600),
              (''token_type'', Str ''access'')]"
    using jwt_decode_access_at[of 1700 1600] by (simp add: payload_of_access_at)
  show ?thesis
    using new_token_agent007
      new_token_reuses_refresh_token[OF new_token_agent007, where t = 1700] live usable
    by (intro conjI)
qed

section \<open>Access tokens\<close>

text \<open>
  C8. An access token issued for a subject decodes, with the same secret and algorithm
  and at any clock reading up to its expiry, to its own claim set, in which the subject
  is the one it was issued for; at any clock reading past its expiry decoding fails.
\<close>

theorem access_token_decode_after_issue:
  "map_of (payload_of (create_access_token settings now [(''sub'', Str subject)] expires_delta)) ''exp''
      = Some (Num e) \<Longrightarrow>
   (t \<le> e \<longrightarrow>
      jwt_decode (create_access_token settings now [(''sub'', Str subject)] expires_delta)
          (JWT_SECRET settings) [JWT_ALGORITHM settings] t
        = Inr (payload_of (create_access_token settings now [(''sub'', Str subject)] expires_delta))
      \<and> map_of (payload_of (create_access_token settings now [(''sub'', Str subject)] expires_delta))
           ''sub'' = Some (Str subject))
   \<and> (e < t \<longrightarrow>
        jwt_decode (create_access_token settings now [(''sub'', Str subject)] expires_delta)
          (JWT_SECRET settings) [JWT_ALGORITHM settings] t = Inl JWTError)"
proof -
  let ?tok = "create_access_token settings now [(''sub'', Str subject)] expires_delta"
  assume e: "map_of (payload_of ?tok) ''exp'' = Some (Num e)"
  obtain cl where tok: "?tok = JWS (JWT_ALGORITHM settings) (JWT_SECRET settings) cl 0"
    by (simp add: create_access_token_def jwt_encode_def)
  have cl: "map_of cl = map_of (payload_of ?tok)" by (simp add: tok)
  have v: "validate_claims cl t = (t \<le> e)"
    apply (rule validate_claims_access[where i = now and s = subject])
    using e by (simp_all add: cl payload_of_create_access_token)
  have s: "map_of cl ''sub'' = Some (Str subject)"
    by (simp add: cl payload_of_create_access_token)
  show ?thesis using v s by (auto simp add: tok)
qed

theorem access_token_decode_after_issue_witness:
  "map_of (payload_of (access_at 1000)) ''exp'' = Some (Num 4600)
   \<and> (1000::int) \<le> 4600
   \<and> jwt_decode (access_at 1000) (JWT_SECRET settings0) [JWT_ALGORITHM settings0] 1000
       = Inr (payload_of (access_at 1000))
   \<and> map_of (payload_of (access_at 1000)) ''sub'' = Some (Str ''agent007'')
   \<and> (4600::int) < 4601
   \<and> jwt_decode (access_at 1000) (JWT_SECRET settings0) [JWT_ALGORITHM settings0] 4601
       = Inl JWTError"
proof -
  have h: "map_of (payload_of (create_access_token settings0 1000 [(''sub'', Str ''agent007'')] None))
      ''exp'' = Some (Num 4600)"
    by (simp add: payload_of_create_access_token settings0_def)
  have before: "(1000::int) \<le> 4600" by simp
  have after: "(4600::int) < 4601" by simp
  from access_token_decode_after_issue[OF h, of 1000] before
  have ok: "jwt_decode (access_at 1000) (JWT_SECRET settings0) [JWT_ALGORITHM settings0] 1000
       = Inr (payload_of (access_at 1000))
     \<and> map_of (payload_of (access_at 1000)) ''sub'' = Some (Str ''agent007'')"
    unfolding access_at_def by blast
  from access_token_decode_after_issue[OF h, of 4601] after
  have expired: "jwt_decode (access_at 1000) (JWT_SECRET settings0) [JWT_ALGORITHM settings0] 4601
       = Inl JWTError"
    unfolding access_at_def by blast
  show ?thesis using h ok expired unfolding access_at_def by simp
qed

section \<open>Email-verification tokens\<close>

text \<open>
  C7. An email-verification token expires 7 days (604800 seconds) after the clock
  reading taken for it and carries \<^verbatim>\<open>iat\<close>. The code adds no token-kind tag: the token
  has a \<^verbatim>\<open>token_type\<close> claim exactly when the caller's data has one, and for the data
  \<^verbatim>\<open>send_email\<close> passes, the subject alone, its claims are \<^verbatim>\<open>sub\<close>, \<^verbatim>\<open>iat\<close> and \<^verbatim>\<open>exp\<close>.
\<close>

theorem email_token_claims:
  "map_of (payload_of (create_email_token settings now1 now2 data)) ''exp''
      = Some (Num (now1 + 7 * 86400))
   \<and> map_of (payload_of (create_email_token settings now1 now2 data)) ''iat'' = Some (Num now2)
   \<and> map_of (payload_of (create_email_token settings now1 now2 data)) ''token_type''
      = map_of data ''token_type''
   \<and> payload_of (create_email_token settings now1 now2 [(''sub'', Str addr)])
      = [(''sub'', Str addr), (''iat'', Num now2), (''exp'', Num (now1 + 604800))]"
  by (simp add: create_email_token_def jwt_encode_def AList.update_conv')

text \<open>The token of a verification email has no kind tag \<^verbatim>\<open>email-verify\<close>.\<close>

theorem email_token_kind_counterexample:
  "map_of (payload_of (create_email_token settings0 1000 1000 [(''sub'', Str ''agent007@gmail.com'')]))
     ''token_type'' \<noteq> Some (Str ''email-verify'')"
  by (simp add: create_email_token_def jwt_encode_def)

section \<open>Password verification\<close>

text \<open>
  C5. On a malformed stored hash \<^verbatim>\<open>verify_password\<close> does not return false: it raises,
  whatever the plaintext, \<^verbatim>\<open>UnknownHashError\<close> when the string carries no bcrypt
  identifier and a \<^verbatim>\<open>ValueError\<close> when it carries one and does not parse.
\<close>

theorem verify_password_result:
  "verify_password plain (Unidentified s) = Inl UnknownHashError
   \<and> verify_password plain (Malformed_bcrypt s) = Inl ValueError"
  by (simp add: verify_password_def)

text \<open>On a malformed stored hash the result is an exception, not \<^verbatim>\<open>False\<close>.\<close>

theorem verify_password_malformed_counterexample:
  "verify_password ''Testtest1!'' (Unidentified ''not-a-bcrypt-hash'') \<noteq> Inr False"
  by (simp add: verify_password_def)

section \<open>Access-token resolution\<close>

lemma get_current_user_hit:
  assumes "jwt_decode tok (JWT_SECRET settings) [JWT_ALGORITHM settings] now = Inr payload"
    and "map_of payload ''sub'' = Some (Str name)"
    and "redis_get (redis_db w) now name = Some v"
  shows "get_current_user settings now tok w
           = (deserialize_user v, w\<lparr>calls := calls w @ [Redis_get name]\<rparr>)"
  using assms by (simp add: get_current_user_def Let_def split: sum.splits)

lemma get_current_user_miss_found:
  assumes "jwt_decode tok (JWT_SECRET settings) [JWT_ALGORITHM settings] now = Inr payload"
    and "map_of payload ''sub'' = Some (Str name)"
    and "redis_get (redis_db w) now name = None"
    and "get_user_by_username (users_table w) name = Inr (Some user)"
  shows "get_current_user settings now tok w
           = (Inr (User_object user),
              w\<lparr>redis_db := (redis_db w)(name \<mapsto> (Pickled user, Some (now + 3600))),
                calls := calls w @ [Redis_get name, Get_user_by_username name,
                                    Redis_set name (Pickled user), Redis_expire name 3600]\<rparr>)"
  using assms
  by (simp add: get_current_user_def Let_def redis_set_def redis_expire_def redis_get_def
        serialize_user_def)

lemma get_current_user_miss_calls:
  assumes "jwt_decode tok (JWT_SECRET settings) [JWT_ALGORITHM settings] now = Inr payload"
    and "map_of payload ''sub'' = Some (Str name)"
    and "redis_get (redis_db w) now name = None"
  shows "store_lookups (calls (snd (get_current_user settings now tok w)))
           = store_lookups (calls w) + 1"
  using assms
  by (simp add: get_current_user_def Let_def store_lookups_def split: sum.splits option.splits)

lemma get_current_user_world0:
  "get_current_user settings0 1000 (access_at 1000) world0
     = (Inr (User_object agent007), world_cached)"
proof -
  have d: "jwt_decode (access_at 1000) (JWT_SECRET settings0) [JWT_ALGORITHM settings0] 1000
     = Inr (payload_of (access_at 1000))" by (rule jwt_decode_access_at) simp
  have s: "map_of (payload_of (access_at 1000)) ''sub'' = Some (Str ''agent007'')"
    by (simp add: payload_of_access_at)
  have r: "redis_get (redis_db world0) 1000 ''agent007'' = None"
    by (simp add: world0_def redis_get_def)
  have u: "get_user_by_username (users_table world0) ''agent007'' = Inr (Some agent007)"
    by (simp add: world0_def get_user_by_username_def agent007_def)
  show ?thesis
    by (simp add: get_current_user_miss_found[OF d s r u]) (simp add: world_cached_def world0_def)
qed

lemma get_current_user_world_malformed:
  "get_current_user settings0 1000 (access_at 1000) world_malformed
   = (Inl JSONDecodeError, world_malformed\<lparr>calls := [Redis_get ''agent007'']\<rparr>)"
proof -
  have d: "jwt_decode (access_at 1000) (JWT_SECRET settings0) [JWT_ALGORITHM settings0] 1000
     = Inr (payload_of (access_at 1000))" by (rule jwt_decode_access_at) simp
  have s: "map_of (payload_of (access_at 1000)) ''sub'' = Some (Str ''agent007'')"
    by (simp add: payload_of_access_at)
  have r: "redis_get (redis_db world_malformed) 1000 ''agent007'' = Some (Not_json ''{'')"
    by (simp add: world_malformed_def world0_def redis_get_def)
  show ?thesis
    by (simp add: get_current_user_hit[OF d s r]) (simp add: world_malformed_def world0_def)
qed

text \<open>
  C2. When the access token decodes and the cache holds an entry for the subject that
  is not the pickle of a user, \<^verbatim>\<open>get_current_user\<close> does not fall back to the user
  store: after the one cache read it ends with what \<^verbatim>\<open>jsonpickle.decode\<close> does with
  the entry. An entry that is not JSON raises \<^verbatim>\<open>JSONDecodeError\<close>, one that is not
  UTF-8 text raises \<^verbatim>\<open>UnicodeDecodeError\<close> (neither is the credentials exception), and
  for valid JSON of another shape the decoded object, which is not a user, is returned
  as the current user.
\<close>

theorem undeserializable_cache_entry_raises:
  assumes "jwt_decode tok (JWT_SECRET settings) [JWT_ALGORITHM settings] now = Inr payload"
    and "map_of payload ''sub'' = Some (Str name)"
  shows "(redis_get (redis_db w) now name = Some (Not_json s) \<longrightarrow>
            get_current_user settings now tok w
              = (Inl JSONDecodeError, w\<lparr>calls := calls w @ [Redis_get name]\<rparr>))
         \<and> (redis_get (redis_db w) now name = Some (Not_utf8 s) \<longrightarrow>
            get_current_user settings now tok w
              = (Inl UnicodeDecodeError, w\<lparr>calls := calls w @ [Redis_get name]\<rparr>))
         \<and> (redis_get (redis_db w) now name = Some (Other_json s) \<longrightarrow>
            get_current_user settings now tok w
              = (Inr (Other_object s), w\<lparr>calls := calls w @ [Redis_get name]\<rparr>))
         \<and> (redis_get (redis_db w) now name = Some v \<and> deserialize_user v = Inl e \<longrightarrow>
            get_current_user settings now tok w
              = (Inl e, w\<lparr>calls := calls w @ [Redis_get name]\<rparr>)
            \<and> e \<noteq> credentials_exception
            \<and> store_lookups (calls (snd (get_current_user settings now tok w)))
                = store_lookups (calls w))"
proof (intro conjI impI)
  assume "redis_get (redis_db w) now name = Some (Not_json s)"
  from get_current_user_hit[OF assms this]
  show "get_current_user settings now tok w
          = (Inl JSONDecodeError, w\<lparr>calls := calls w @ [Redis_get name]\<rparr>)"
    by simp
next
  assume "redis_get (redis_db w) now name = Some (Not_utf8 s)"
  from get_current_user_hit[OF assms this]
  show "get_current_user settings now tok w
          = (Inl UnicodeDecodeError, w\<lparr>calls := calls w @ [Redis_get name]\<rparr>)"
    by simp
next
  assume "redis_get (redis_db w) now name = Some (Other_json s)"
  from get_current_user_hit[OF assms this]
  show "get_current_user settings now tok w
          = (Inr (Other_object s), w\<lparr>calls := calls w @ [Redis_get name]\<rparr>)"
    by simp
next
  assume a: "redis_get (redis_db w) now name = Some v \<and> deserialize_user v = Inl e"
  note h = get_current_user_hit[OF assms conjunct1[OF a]]
  show g: "get_current_user settings now tok w
          = (Inl e, w\<lparr>calls := calls w @ [Redis_get name]\<rparr>)"
    using h a by simp
  show "e \<noteq> credentials_exception"
    using a by (cases v) (auto simp add: credentials_exception_def)
  show "store_lookups (calls (snd (get_current_user settings now tok w)))
          = store_lookups (calls w)"
    by (simp add: g store_lookups_def)
qed

theorem undeserializable_cache_entry_raises_witness:
  "jwt_decode (access_at 1000) (JWT_SECRET settings0) [JWT_ALGORITHM settings0] 1000
     = Inr (payload_of (access_at 1000))
   \<and> map_of (payload_of (access_at 1000)) ''sub'' = Some (Str ''agent007'')
   \<and> redis_get (redis_db world_malformed) 1000 ''agent007'' = Some (Not_json ''{'')
   \<and> deserialize_user (Not_json ''{'') = Inl JSONDecodeError
   \<and> get_current_user settings0 1000 (access_at 1000) world_malformed
       = (Inl JSONDecodeError,
          world_malformed\<lparr>calls := calls world_malformed @ [Redis_get ''agent007'']\<rparr>)
   \<and> JSONDecodeError \<noteq> credentials_exception
   \<and> store_lookups (calls (snd (get_current_user settings0 1000 (access_at 1000) world_malformed)))
       = store_lookups (calls world_malformed)
   \<and> redis_get (redis_db (world0\<lparr>redis_db := [''agent007'' \<mapsto> (Not_utf8 [CHR 0xFF], None)]\<rparr>))
        1000 ''agent007'' = Some (Not_utf8 [CHR 0xFF])
   \<and> fst (get_current_user settings0 1000 (access_at 1000)
        (world0\<lparr>redis_db := [''agent007'' \<mapsto> (Not_utf8 [CHR 0xFF], None)]\<rparr>))
       = Inl UnicodeDecodeError
   \<and> redis_get (redis_db (world0\<lparr>redis_db := [''agent007'' \<mapsto> (Other_json ''{}'', None)]\<rparr>))
        1000 ''agent007'' = Some (Other_json ''{}'')
   \<and> fst (get_current_user settings0 1000 (access_at 1000)
        (world0\<lparr>redis_db := [''agent007'' \<mapsto> (Other_json ''{}'', None)]\<rparr>))
       = Inr (Other_object ''{}'')"
proof -
  have d: "jwt_decode (access_at 1000) (JWT_SECRET settings0) [JWT_ALGORITHM settings0] 1000
     = Inr (payload_of (access_at 1000))" by (rule jwt_decode_access_at) simp
  have s: "map_of (payload_of (access_at 1000)) ''sub'' = Some (Str ''agent007'')"
    by (simp add: payload_of_access_at)
  have r: "redis_get (redis_db world_malformed) 1000 ''agent007'' = Some (Not_json ''{'')"
    by (simp add: world_malformed_def world0_def redis_get_def)
  have e: "deserialize_user (Not_json ''{'') = Inl JSONDecodeError" by simp
  have r8: "redis_get (redis_db (world0\<lparr>redis_db := [''agent007'' \<mapsto> (Not_utf8 [CHR 0xFF], None)]\<rparr>))
        1000 ''agent007'' = Some (Not_utf8 [CHR 0xFF])"
    by (simp add: redis_get_def)
  have rj: "redis_get (redis_db (world0\<lparr>redis_db := [''agent007'' \<mapsto> (Other_json ''{}'', None)]\<rparr>))
        1000 ''agent007'' = Some (Other_json ''{}'')"
    by (simp add: redis_get_def)
  note not_json = undeserializable_cache_entry_raises[OF d s, where w = world_malformed
      and s = "''{''" and v = "Not_json ''{''" and e = JSONDecodeError]
  note not_utf8 = undeserializable_cache_entry_raises[OF d s,
      where w = "world0\<lparr>redis_db := [''agent007'' \<mapsto> (Not_utf8 [CHR 0xFF], None)]\<rparr>"
      and s = "[CHR 0xFF]", THEN conjunct2, THEN conjunct1, rule_format, OF r8]
  note other = undeserializable_cache_entry_raises[OF d s,
      where w = "world0\<lparr>redis_db := [''agent007'' \<mapsto> (Other_json ''{}'', None)]\<rparr>"
      and s = "''{}''", THEN conjunct2, THEN conjunct2, THEN conjunct1, rule_format, OF rj]
  have c1: "get_current_user settings0 1000 (access_at 1000) world_malformed
       = (Inl JSONDecodeError,
          world_malformed\<lparr>calls := calls world_malformed @ [Redis_get ''agent007'']\<rparr>)
     \<and> JSONDecodeError \<noteq> credentials_exception
     \<and> store_lookups (calls (snd (get_current_user settings0 1000 (access_at 1000) world_malformed)))
         = store_lookups (calls world_malformed)"
    using not_json r e by blast
  have c2: "fst (get_current_user settings0 1000 (access_at 1000)
        (world0\<lparr>redis_db := [''agent007'' \<mapsto> (Not_utf8 [CHR 0xFF], None)]\<rparr>))
       = Inl UnicodeDecodeError"
    by (simp add: not_utf8)
  have c3: "fst (get_current_user settings0 1000 (access_at 1000)
        (world0\<lparr>redis_db := [''agent007'' \<mapsto> (Other_json ''{}'', None)]\<rparr>))
       = Inr (Other_object ''{}'')"
    by (simp add: other)
  show ?thesis using d s r e c1 r8 c2 rj c3 by blast
qed

text \<open>
  With an entry that is not JSON the call fails, while on a cache miss in the same state
  it returns the user.
\<close>

theorem undeserializable_cache_entry_counterexample:
  "fst (get_current_user settings0 1000 (access_at 1000) world_malformed) = Inl JSONDecodeError
   \<and> fst (get_current_user settings0 1000 (access_at 1000) (world_malformed\<lparr>redis_db := Map.empty\<rparr>))
       = Inr (User_object agent007)"
proof -
  have eq: "world_malformed\<lparr>redis_db := Map.empty\<rparr> = world0"
    by (simp add: world_malformed_def world0_def)
  show ?thesis
    by (simp add: eq get_current_user_world0 get_current_user_world_malformed)
qed

text \<open>
  C6. For an access token that decodes to a subject: if the cache holds an entry for the
  subject, the result is the deserialization of that entry and no user-store lookup is
  made; if the cache holds no entry, exactly one user-store lookup is made and, when the
  user is found, the user is returned after exactly one cache write followed by
  \<^verbatim>\<open>expire(username, 3600)\<close>, so that a second call less than 3600 seconds later returns
  the same user with no further lookup.
\<close>

theorem get_current_user_cache_discipline:
  assumes d: "jwt_decode tok (JWT_SECRET settings) [JWT_ALGORITHM settings] now = Inr payload"
    and sub: "map_of payload ''sub'' = Some (Str name)"
  shows "(redis_get (redis_db w) now name = Some v \<longrightarrow>
            fst (get_current_user settings now tok w) = deserialize_user v
            \<and> calls (snd (get_current_user settings now tok w)) = calls w @ [Redis_get name]
            \<and> store_lookups (calls (snd (get_current_user settings now tok w)))
                = store_lookups (calls w))
         \<and> (redis_get (redis_db w) now name = None \<longrightarrow>
              store_lookups (calls (snd (get_current_user settings now tok w)))
                = store_lookups (calls w) + 1)
         \<and> (redis_get (redis_db w) now name = None
              \<and> get_user_by_username (users_table w) name = Inr (Some user) \<longrightarrow>
              fst (get_current_user settings now tok w) = Inr (User_object user)
              \<and> calls (snd (get_current_user settings now tok w))
                  = calls w @ [Redis_get name, Get_user_by_username name,
                               Redis_set name (serialize_user user), Redis_expire name 3600]
              \<and> cache_puts (calls (snd (get_current_user settings now tok w)))
                  = cache_puts (calls w) + 1
              \<and> (jwt_decode tok' (JWT_SECRET settings) [JWT_ALGORITHM settings] now' = Inr payload'
                   \<and> map_of payload' ''sub'' = Some (Str name) \<and> now' < now + 3600 \<longrightarrow>
                   fst (get_current_user settings now' tok' (snd (get_current_user settings now tok w)))
                     = Inr (User_object user)
                   \<and> store_lookups (calls (snd (get_current_user settings now' tok'
                                                (snd (get_current_user settings now tok w)))))
                       = store_lookups (calls (snd (get_current_user settings now tok w)))))"
proof (intro conjI impI)
  assume hit: "redis_get (redis_db w) now name = Some v"
  note h = get_current_user_hit[OF d sub hit]
  show "fst (get_current_user settings now tok w) = deserialize_user v" by (simp add: h)
  show "calls (snd (get_current_user settings now tok w)) = calls w @ [Redis_get name]"
    by (simp add: h)
  show "store_lookups (calls (snd (get_current_user settings now tok w))) = store_lookups (calls w)"
    by (simp add: h store_lookups_def)
next
  assume "redis_get (redis_db w) now name = None"
  then show "store_lookups (calls (snd (get_current_user settings now tok w)))
                = store_lookups (calls w) + 1"
    by (rule get_current_user_miss_calls[OF d sub])
next
  assume a: "redis_get (redis_db w) now name = None
              \<and> get_user_by_username (users_table w) name = Inr (Some user)"
  note m = get_current_user_miss_found[OF d sub conjunct1[OF a] conjunct2[OF a]]
  show "fst (get_current_user settings now tok w) = Inr (User_object user)" by (simp add: m)
  show "calls (snd (get_current_user settings now tok w))
                  = calls w @ [Redis_get name, Get_user_by_username name,
                               Redis_set name (serialize_user user), Redis_expire name 3600]"
    by (simp add: m serialize_user_def)
  show "cache_puts (calls (snd (get_current_user settings now tok w))) = cache_puts (calls w) + 1"
    by (simp add: m cache_puts_def)
  assume b: "jwt_decode tok' (JWT_SECRET settings) [JWT_ALGORITHM settings] now' = Inr payload'
                   \<and> map_of payload' ''sub'' = Some (Str name) \<and> now' < now + 3600"
  let ?w' = "snd (get_current_user settings now tok w)"
  have live: "redis_get (redis_db ?w') now' name = Some (Pickled user)"
    using b by (simp add: m redis_get_def)
  note h2 = get_current_user_hit[OF conjunct1[OF b] conjunct1[OF conjunct2[OF b]] live]
  show "fst (get_current_user settings now' tok' ?w') = Inr (User_object user)" by (simp add: h2)
  show "store_lookups (calls (snd (get_current_user settings now' tok' ?w')))
          = store_lookups (calls ?w')"
    by (simp add: h2 store_lookups_def)
qed

theorem get_current_user_cache_discipline_witness:
  "jwt_decode (access_at 1000) (JWT_SECRET settings0) [JWT_ALGORITHM settings0] 1000
     = Inr (payload_of (access_at 1000))
   \<and> map_of (payload_of (access_at 1000)) ''sub'' = Some (Str ''agent007'')
   \<and> redis_get (redis_db world0) 1000 ''agent007'' = None
   \<and> get_user_by_username (users_table world0) ''agent007'' = Inr (Some agent007)
   \<and> jwt_decode (access_at 1000) (JWT_SECRET settings0) [JWT_ALGORITHM settings0] 2000
     = Inr (payload_of (access_at 1000))
   \<and> (2000::int) < 1000 + 3600
   \<and> redis_get (redis_db world_cached) 2000 ''agent007'' = Some (Pickled agent007)
   \<and> fst (get_current_user settings0 1000 (access_at 1000) world0) = Inr (User_object agent007)
   \<and> store_lookups (calls (snd (get_current_user settings0 1000 (access_at 1000) world0))) = 1
   \<and> cache_puts (calls (snd (get_current_user settings0 1000 (access_at 1000) world0))) = 1
   \<and> calls (snd (get_current_user settings0 1000 (access_at 1000) world0))
       = [Redis_get ''agent007'', Get_user_by_username ''agent007'',
          Redis_set ''agent007'' (Pickled agent007), Redis_expire ''agent007'' 3600]
   \<and> fst (get_current_user settings0 2000 (access_at 1000)
            (snd (get_current_user settings0 1000 (access_at 1000) world0))) = Inr (User_object agent007)
   \<and> store_lookups (calls (snd (get_current_user settings0 2000 (access_at 1000)
            (snd (get_current_user settings0 1000 (access_at 1000) world0))))) = 1
   \<and> fst (get_current_user settings0 2000 (access_at 1000) world_cached) = Inr (User_object agent007)
   \<and> store_lookups (calls (snd (get_current_user settings0 2000 (access_at 1000) world_cached)))
       = store_lookups (calls world_cached)"
proof -
  have d: "jwt_decode (access_at 1000) (JWT_SECRET settings0) [JWT_ALGORITHM settings0] 1000
     = Inr (payload_of (access_at 1000))" by (rule jwt_decode_access_at) simp
  have d2: "jwt_decode (access_at 1000) (JWT_SECRET settings0) [JWT_ALGORITHM settings0] 2000
     = Inr (payload_of (access_at 1000))" by (rule jwt_decode_access_at) simp
  have s: "map_of (payload_of (access_at 1000)) ''sub'' = Some (Str ''agent007'')"
    by (simp add: payload_of_access_at)
  have miss: "redis_get (redis_db world0) 1000 ''agent007'' = None"
    by (simp add: world0_def redis_get_def)
  have u: "get_user_by_username (users_table world0) ''agent007'' = Inr (Some agent007)"
    by (simp add: world0_def get_user_by_username_def agent007_def)
  have ttl: "(2000::int) < 1000 + 3600" by simp
  have hit: "redis_get (redis_db world_cached) 2000 ''agent007'' = Some (Pickled agent007)"
    by (simp add: world_cached_def world0_def redis_get_def)
  have c0: "store_lookups (calls world0) = 0" "cache_puts (calls world0) = 0" "calls world0 = []"
    by (simp_all add: world0_def store_lookups_def cache_puts_def)
  note first = get_current_user_cache_discipline[OF d s, where w = world0 and user = agent007
      and tok' = "access_at 1000" and now' = 2000 and payload' = "payload_of (access_at 1000)"]
  note second = get_current_user_cache_discipline[OF d2 s, where w = world_cached
      and v = "Pickled agent007"]
  have a: "fst (get_current_user settings0 1000 (access_at 1000) world0) = Inr (User_object agent007)
   \<and> store_lookups (calls (snd (get_current_user settings0 1000 (access_at 1000) world0))) = 1
   \<and> cache_puts (calls (snd (get_current_user settings0 1000 (access_at 1000) world0))) = 1
   \<and> calls (snd (get_current_user settings0 1000 (access_at 1000) world0))
       = [Redis_get ''agent007'', Get_user_by_username ''agent007'',
          Redis_set ''agent007'' (Pickled agent007), Redis_expire ''agent007'' 3600]
   \<and> fst (get_current_user settings0 2000 (access_at 1000)
            (snd (get_current_user settings0 1000 (access_at 1000) world0))) = Inr (User_object agent007)
   \<and> store_lookups (calls (snd (get_current_user settings0 2000 (access_at 1000)
            (snd (get_current_user settings0 1000 (access_at 1000) world0))))) = 1"
    using first miss u d2 s ttl c0 by (simp add: serialize_user_def store_lookups_def cache_puts_def)
  have b: "fst (get_current_user settings0 2000 (access_at 1000) world_cached) = Inr (User_object agent007)
   \<and> store_lookups (calls (snd (get_current_user settings0 2000 (access_at 1000) world_cached)))
       = store_lookups (calls world_cached)"
    using second hit by (simp add: store_lookups_def)
  show ?thesis using d s miss u d2 ttl hit a b by blast
qed

text \<open>
  The cache holds an entry that does not deserialize, and no user-store lookup is made.
\<close>

theorem store_lookup_count_counterexample:
  "redis_get (redis_db world_malformed) 1000 ''agent007'' = Some (Not_json ''{'')
   \<and> deserialize_user (Not_json ''{'') = Inl JSONDecodeError
   \<and> store_lookups (calls (snd (get_current_user settings0 1000 (access_at 1000) world_malformed))) = 0"
  by (simp add: get_current_user_world_malformed store_lookups_def)
     (simp add: world_malformed_def world0_def redis_get_def)

section \<open>Temporary password generator\<close>

lemma choice_in_population:
  "population \<noteq> [] \<Longrightarrow> fst (choice population g) \<in> set population"
  by (simp add: choice_def randbelow_def)

lemma length_choices: "length (fst (choices population k g)) = k"
proof (induction k arbitrary: g)
  case 0
  show ?case by simp
next
  case (Suc k)
  obtain c g1 where c: "choice population g = (c, g1)" by (cases "choice population g")
  obtain cs g2 where cs: "choices population k g1 = (cs, g2)" by (cases "choices population k g1")
  have "length cs = k" using Suc.IH[of g1] cs by simp
  then show ?case by (simp add: c cs)
qed

lemma choices_in_population:
  "population \<noteq> [] \<Longrightarrow> set (fst (choices population k g)) \<subseteq> set population"
proof (induction k arbitrary: g)
  case 0
  show ?case by simp
next
  case (Suc k)
  obtain c g1 where c: "choice population g = (c, g1)" by (cases "choice population g")
  obtain cs g2 where cs: "choices population k g1 = (cs, g2)" by (cases "choices population k g1")
  have "c \<in> set population"
    using choice_in_population[OF Suc.prems, of g] c by simp
  moreover have "set cs \<subseteq> set population"
    using Suc.IH[OF Suc.prems, of g1] cs by simp
  ultimately show ?case by (simp add: c cs)
qed

lemma mset_shuffle_loop:
  "i < length x \<Longrightarrow> mset (fst (shuffle_loop i x g)) = mset x"
proof (induction i arbitrary: x g)
  case 0
  show ?case by simp
next
  case (Suc i)
  let ?j = "shd g mod (Suc i + 1)"
  let ?x' = "x[Suc i := x ! ?j, ?j := x ! Suc i]"
  have j: "?j < length x"
  proof -
    have "?j < Suc i + 1" by (rule mod_less_divisor) simp
    then show ?thesis using Suc.prems by linarith
  qed
  have swap: "mset ?x' = mset x"
    using j Suc.prems by (rule mset_swap)
  have "i < length ?x'" using Suc.prems by simp
  then have ih: "mset (fst (shuffle_loop i ?x' (stl g))) = mset ?x'"
    by (rule Suc.IH)
  have step: "shuffle_loop (Suc i) x g = shuffle_loop i ?x' (stl g)"
    by (simp add: randbelow_def)
  show ?case unfolding step using ih swap by (rule trans)
qed

lemma mset_shuffle: "mset (fst (shuffle x g)) = mset x"
proof (cases x)
  case Nil
  then show ?thesis by (simp add: shuffle_def)
next
  case (Cons a as)
  then have "length x - 1 < length x" by simp
  then show ?thesis unfolding shuffle_def by (rule mset_shuffle_loop)
qed

lemma generate_temp_password_mset:
  "\<exists>lower upper digit symbol other_chars.
     lower \<in> set ascii_lowercase \<and> upper \<in> set ascii_uppercase \<and> digit \<in> set digits
     \<and> symbol \<in> set symbols \<and> length other_chars = 6
     \<and> set other_chars \<subseteq> set (ascii_letters @ digits @ symbols)
     \<and> mset (fst (generate_temp_password False g))
         = mset (lower # upper # digit # symbol # other_chars)"
proof -
  obtain lower g1 where l: "choice ascii_lowercase g = (lower, g1)" by (cases "choice ascii_lowercase g")
  obtain upper g2 where u: "choice ascii_uppercase g1 = (upper, g2)" by (cases "choice ascii_uppercase g1")
  obtain digit g3 where d: "choice digits g2 = (digit, g3)" by (cases "choice digits g2")
  obtain symbol g4 where s: "choice symbols g3 = (symbol, g4)" by (cases "choice symbols g3")
  obtain other_chars g5 where
    oc: "choices (ascii_letters @ digits @ symbols) 6 g4 = (other_chars, g5)"
    by (cases "choices (ascii_letters @ digits @ symbols) 6 g4")
  have "lower \<in> set ascii_lowercase"
    using choice_in_population[of ascii_lowercase g] l by (simp add: ascii_lowercase_def)
  moreover have "upper \<in> set ascii_uppercase"
    using choice_in_population[of ascii_uppercase g1] u by (simp add: ascii_uppercase_def)
  moreover have "digit \<in> set digits"
    using choice_in_population[of digits g2] d by (simp add: digits_def)
  moreover have "symbol \<in> set symbols"
    using choice_in_population[of symbols g3] s by (simp add: symbols_def)
  moreover have "length other_chars = 6"
    using length_choices[of "ascii_letters @ digits @ symbols" 6 g4] oc by simp
  moreover have "set other_chars \<subseteq> set (ascii_letters @ digits @ symbols)"
    using choices_in_population[of "ascii_letters @ digits @ symbols" 6 g4] oc
    by (simp add: digits_def)
  moreover have "mset (fst (generate_temp_password False g))
         = mset (lower # upper # digit # symbol # other_chars)"
    unfolding generate_temp_password_def
    by (simp add: l u d s oc mset_shuffle del: choices.simps)
  ultimately show ?thesis by blast
qed

lemma generate_temp_password_no_nul:
  "CHR 0x00 \<notin> set (fst (generate_temp_password pytest g))"
proof (cases pytest)
  case True
  then show ?thesis by (simp add: generate_temp_password_def)
next
  case False
  obtain lower upper digit symbol other_chars where
    cls: "lower \<in> set ascii_lowercase" "upper \<in> set ascii_uppercase" "digit \<in> set digits"
      "symbol \<in> set symbols"
    and others: "set other_chars \<subseteq> set (ascii_letters @ digits @ symbols)"
    and m: "mset (fst (generate_temp_password False g))
              = mset (lower # upper # digit # symbol # other_chars)"
    using generate_temp_password_mset[of g] by blast
  have pw: "set (fst (generate_temp_password False g))
              = set (lower # upper # digit # symbol # other_chars)"
    using m by (rule mset_eq_setD)
  have l: "CHR 0x00 \<notin> set ascii_lowercase" by (simp add: ascii_lowercase_def)
  have u: "CHR 0x00 \<notin> set ascii_uppercase" by (simp add: ascii_uppercase_def)
  have d: "CHR 0x00 \<notin> set digits" by (simp add: digits_def)
  have y: "CHR 0x00 \<notin> set symbols" by (simp add: symbols_def)
  have a: "CHR 0x00 \<notin> set (ascii_letters @ digits @ symbols)"
    using l u d y by (simp add: ascii_letters_def)
  have "CHR 0x00 \<notin> set (lower # upper # digit # symbol # other_chars)"
    using cls others l u d y a by auto
  then show ?thesis using False pw by simp
qed

lemma get_password_hash_generated:
  "get_password_hash salt (fst (generate_temp_password pytest g))
     = Inr (Bcrypt salt (fst (generate_temp_password pytest g)))"
  by (simp add: get_password_hash_def pwd_context_hash_def generate_temp_password_no_nul)

text \<open>
  C10. Outside the test environment the generated temporary password has length exactly
  10 and contains a lowercase letter, an uppercase letter, a digit and a character of
  \<^verbatim>\<open>@$!%*?&\<close>, whatever the random generator draws; under pytest it is \<^verbatim>\<open>TestTest2!\<close>.
\<close>

theorem generate_temp_password_shape:
  "length (fst (generate_temp_password False g)) = 10
   \<and> (\<exists>c \<in> set (fst (generate_temp_password False g)). c \<in> set ascii_lowercase)
   \<and> (\<exists>c \<in> set (fst (generate_temp_password False g)). c \<in> set ascii_uppercase)
   \<and> (\<exists>c \<in> set (fst (generate_temp_password False g)). c \<in> set digits)
   \<and> (\<exists>c \<in> set (fst (generate_temp_password False g)). c \<in> set ''@$!%*?&'')
   \<and> fst (generate_temp_password True g) = ''TestTest2!''"
proof -
  let ?pw = "fst (generate_temp_password False g)"
  obtain lower upper digit symbol other_chars where
    cls: "lower \<in> set ascii_lowercase" "upper \<in> set ascii_uppercase" "digit \<in> set digits"
      "symbol \<in> set symbols" and len: "length other_chars = 6"
    and m: "mset ?pw = mset (lower # upper # digit # symbol # other_chars)"
    using generate_temp_password_mset[of g] by blast
  have "length ?pw = length (lower # upper # digit # symbol # other_chars)"
    using m by (rule mset_eq_length)
  then have l10: "length ?pw = 10" using len by simp
  have "set ?pw = set (lower # upper # digit # symbol # other_chars)"
    using m by (rule mset_eq_setD)
  then have mem: "lower \<in> set ?pw" "upper \<in> set ?pw" "digit \<in> set ?pw" "symbol \<in> set ?pw"
    by simp_all
  have sym: "symbol \<in> set ''@$!%*?&''" using cls(4) by (simp add: symbols_def)
  have t: "fst (generate_temp_password True g) = ''TestTest2!''"
    by (simp add: generate_temp_password_def)
  show ?thesis using l10 mem cls(1-3) sym t by blast
qed

section \<open>Password reset and verification requests\<close>

lemma lookup_nobody:
  "get_user_by_email (users_table world0) ''nobody@gmail.com'' = Inr None"
  by (simp add: world0_def get_user_by_email_def agent007_def)

lemma lookup_agent007:
  "get_user_by_email (users_table world0) ''agent007@gmail.com'' = Inr (Some agent007)"
  by (simp add: world0_def get_user_by_email_def agent007_def)

lemma lookup_unconfirmed:
  "get_user_by_email (users_table world_unconfirmed) ''agent007@gmail.com''
     = Inr (Some (agent007\<lparr>confirmed := False\<rparr>))"
  by (simp add: world_unconfirmed_def world0_def get_user_by_email_def agent007_def)

lemma lookup_unconfirmed_nobody:
  "get_user_by_email (users_table world_unconfirmed) ''nobody@gmail.com'' = Inr None"
  by (simp add: world_unconfirmed_def world0_def get_user_by_email_def agent007_def)

text \<open>
  C4. \<^verbatim>\<open>forget_password\<close> answers an unregistered address and a registered, confirmed
  address with the same message, and a registered, unconfirmed address with HTTP 401
  \<^verbatim>\<open>Email is not confirmed\<close>. \<^verbatim>\<open>request_email\<close> answers an unregistered address and a
  registered, unconfirmed address with the same message, and a registered, confirmed
  address with HTTP 400 \<^verbatim>\<open>Email is already confirmed\<close>.
\<close>

theorem address_probe_responses:
  "(get_user_by_email (users_table w) addr = Inr None \<longrightarrow>
      fst (forget_password pytest g salt addr w)
        = Inr (Message ''If this user exists in our database, we have sent them an email with temporary password'')
      \<and> fst (request_email base_url addr w)
        = Inr (Message ''If this user exists in our database, we have sent them a confirmation email''))
   \<and> (get_user_by_email (users_table w) addr = Inr (Some user) \<and> confirmed user \<longrightarrow>
      fst (forget_password pytest g salt addr w)
        = Inr (Message ''If this user exists in our database, we have sent them an email with temporary password'')
      \<and> fst (request_email base_url addr w) = Inl (HTTPException 400 ''Email is already confirmed''))
   \<and> (get_user_by_email (users_table w) addr = Inr (Some user) \<and> \<not> confirmed user \<longrightarrow>
      fst (forget_password pytest g salt addr w) = Inl (HTTPException 401 ''Email is not confirmed'')
      \<and> fst (request_email base_url addr w)
        = Inr (Message ''If this user exists in our database, we have sent them a confirmation email''))"
  by (simp add: forget_password_def request_email_def update_hashed_password_def Let_def
        get_password_hash_generated)

theorem address_probe_responses_witness:
  "get_user_by_email (users_table world0) ''nobody@gmail.com'' = Inr None
   \<and> fst (forget_password False (sconst 0) ''salt'' ''nobody@gmail.com'' world0)
       = Inr (Message ''If this user exists in our database, we have sent them an email with temporary password'')
   \<and> fst (request_email ''http://testserver/'' ''nobody@gmail.com'' world0)
       = Inr (Message ''If this user exists in our database, we have sent them a confirmation email'')
   \<and> get_user_by_email (users_table world0) ''agent007@gmail.com'' = Inr (Some agent007)
   \<and> confirmed agent007
   \<and> fst (forget_password False (sconst 0) ''salt'' ''agent007@gmail.com'' world0)
       = Inr (Message ''If this user exists in our database, we have sent them an email with temporary password'')
   \<and> fst (request_email ''http://testserver/'' ''agent007@gmail.com'' world0)
       = Inl (HTTPException 400 ''Email is already confirmed'')
   \<and> get_user_by_email (users_table world_unconfirmed) ''agent007@gmail.com''
       = Inr (Some (agent007\<lparr>confirmed := False\<rparr>))
   \<and> \<not> confirmed (agent007\<lparr>confirmed := False\<rparr>)
   \<and> fst (forget_password False (sconst 0) ''salt'' ''agent007@gmail.com'' world_unconfirmed)
       = Inl (HTTPException 401 ''Email is not confirmed'')
   \<and> fst (request_email ''http://testserver/'' ''agent007@gmail.com'' world_unconfirmed)
       = Inr (Message ''If this user exists in our database, we have sent them a confirmation email'')"
proof -
  have c: "confirmed agent007" by (simp add: agent007_def)
  have nc: "\<not> confirmed (agent007\<lparr>confirmed := False\<rparr>)" by simp
  note absent = address_probe_responses[where w = world0 and addr = "''nobody@gmail.com''"
      and pytest = False and g = "sconst 0" and salt = "''salt''"
      and base_url = "''http://testserver/''", THEN conjunct1, rule_format, OF lookup_nobody]
  note registered = address_probe_responses[where w = world0 and addr = "''agent007@gmail.com''"
      and user = agent007 and pytest = False and g = "sconst 0" and salt = "''salt''"
      and base_url = "''http://testserver/''", THEN conjunct2, THEN conjunct1, rule_format,
      OF conjI[OF lookup_agent007 c]]
  note pending = address_probe_responses[where w = world_unconfirmed
      and addr = "''agent007@gmail.com''" and user = "agent007\<lparr>confirmed := False\<rparr>"
      and pytest = False and g = "sconst 0" and salt = "''salt''"
      and base_url = "''http://testserver/''", THEN conjunct2, THEN conjunct2, rule_format,
      OF conjI[OF lookup_unconfirmed nc]]
  show ?thesis
    using lookup_nobody absent lookup_agent007 c registered lookup_unconfirmed nc pending
    by blast
qed

text \<open>
  The responses for a registered and for an unregistered address differ: for an
  unconfirmed user at \<^verbatim>\<open>forget_password\<close>, for a confirmed user at \<^verbatim>\<open>request_email\<close>.
\<close>

theorem address_probe_counterexample:
  "get_user_by_email (users_table world_unconfirmed) ''agent007@gmail.com''
     = Inr (Some (agent007\<lparr>confirmed := False\<rparr>))
   \<and> get_user_by_email (users_table world_unconfirmed) ''nobody@gmail.com'' = Inr None
   \<and> fst (forget_password False (sconst 0) ''salt'' ''agent007@gmail.com'' world_unconfirmed)
       \<noteq> fst (forget_password False (sconst 0) ''salt'' ''nobody@gmail.com'' world_unconfirmed)
   \<and> get_user_by_email (users_table world0) ''agent007@gmail.com'' = Inr (Some agent007)
   \<and> get_user_by_email (users_table world0) ''nobody@gmail.com'' = Inr None
   \<and> fst (request_email ''http://testserver/'' ''agent007@gmail.com'' world0)
       \<noteq> fst (request_email ''http://testserver/'' ''nobody@gmail.com'' world0)"
  by (simp add: lookup_unconfirmed lookup_unconfirmed_nobody lookup_agent007 lookup_nobody
        forget_password_def request_email_def)
     (simp add: agent007_def)

end
